theory Spec2Isabelle
  imports Main "HOL-Library.AList"
begin

section \<open>JavaScript values used by the client\<close>

text \<open>
  Strings are lists of characters. An optional string stands for a value that is a string,
  \<open>null\<close> or \<open>undefined\<close>; \<open>None\<close> is the absent value. A string is truthy
  when it is present and not empty, which is what \<open>if (t)\<close>, \<open>!t\<close> and \<open>a || b\<close>
  test on such a value.
\<close>

definition truthy :: "string option \<Rightarrow> bool" where
  "truthy v = (case v of None \<Rightarrow> False | Some s \<Rightarrow> s \<noteq> [])"

text \<open>\<open>a || d\<close> for an optional string \<open>a\<close> and a string \<open>d\<close>.\<close>

definition or_else :: "string option \<Rightarrow> string \<Rightarrow> string" where
  "or_else v d = (case v of None \<Rightarrow> d | Some s \<Rightarrow> if s = [] then d else s)"

text \<open>\<open>a || b\<close> for two strings.\<close>

definition or_str :: "string \<Rightarrow> string \<Rightarrow> string" where
  "or_str a b = (if a = [] then b else a)"

text \<open>\<open>xs.filter(Boolean)\<close> on an array of optional strings.\<close>

definition filter_Boolean :: "string option list \<Rightarrow> string list" where
  "filter_Boolean xs =
     concat (map (\<lambda>v. case v of None \<Rightarrow> [] | Some s \<Rightarrow> if s = [] then [] else [s]) xs)"

text \<open>
  \<open>Array.from(new Set(xs))\<close>: a \<open>Set\<close> keeps its elements in insertion order and
  adding an element it already has changes nothing.
\<close>

definition Set_add :: "'a list \<Rightarrow> 'a \<Rightarrow> 'a list" where
  "Set_add s x = (if x \<in> set s then s else s @ [x])"

definition Array_from_Set :: "'a list \<Rightarrow> 'a list" where
  "Array_from_Set xs = foldl Set_add [] xs"

text \<open>
  The specification's reading of the same: remove duplicates, keeping every name where it
  was first seen.
\<close>

fun dedup_first_seen :: "'a list \<Rightarrow> 'a list" where
  "dedup_first_seen [] = []"
| "dedup_first_seen (x # xs) = x # dedup_first_seen (removeAll x xs)"

text \<open>
  \<open>String.prototype.trim\<close> on the characters the model has: the white space and line
  terminators below code 256 (tab, line feed, vertical tab, form feed, carriage return,
  space, no-break space).
\<close>

definition isWhiteSpace :: "char \<Rightarrow> bool" where
  "isWhiteSpace c =
     (c \<in> set [CHR 0x09, CHR 0x0A, CHR 0x0B, CHR 0x0C, CHR 0x0D, CHR 0x20, CHR 0xA0])"

definition trim :: "string \<Rightarrow> string" where
  "trim s = rev (dropWhile isWhiteSpace (rev (dropWhile isWhiteSpace s)))"

text \<open>A number inside a template literal, \<open>`${res.status}`\<close>: its decimal digits.\<close>

fun decimal :: "nat \<Rightarrow> string" where
  "decimal n =
     (if n < 10 then [''0123456789'' ! n]
      else decimal (n div 10) @ [''0123456789'' ! (n mod 10)])"

declare decimal.simps [simp del]

text \<open>
  A thrown value, as far as the handlers look at it: \<open>e?.message\<close>. \<open>new Error(m)\<close> is
  \<open>Thrown (Some m)\<close>.
\<close>

datatype thrown = Thrown (message: "string option")

section \<open>Browser storage\<close>

text \<open>
  \<open>window.localStorage\<close>: the stored items, and the two ways a call on it throws, which
  the token stores catch. When \<open>blocked\<close> every access throws (storage disabled for
  the site); when \<open>full\<close> \<open>setItem\<close> throws (quota exceeded).
\<close>

record storage =
  items :: "string \<rightharpoonup> string"
  blocked :: bool
  full :: bool

definition getItem :: "storage \<Rightarrow> string \<Rightarrow> thrown + string option" where
  "getItem st k =
     (if blocked st then Inl (Thrown (Some ''SecurityError'')) else Inr (items st k))"

definition setItem :: "storage \<Rightarrow> string \<Rightarrow> string \<Rightarrow> thrown + storage" where
  "setItem st k v =
     (if blocked st then Inl (Thrown (Some ''SecurityError''))
      else if full st then Inl (Thrown (Some ''QuotaExceededError''))
      else Inr (st\<lparr>items := (items st)(k \<mapsto> v)\<rparr>))"

definition removeItem :: "storage \<Rightarrow> string \<Rightarrow> thrown + storage" where
  "removeItem st k =
     (if blocked st then Inl (Thrown (Some ''SecurityError''))
      else Inr (st\<lparr>items := (items st)(k := None)\<rparr>))"

text \<open>
  The global object of the running code: \<open>None\<close> where \<open>typeof window\<close> is
  \<open>"undefined"\<close> (rendering on the server), the browser's storage otherwise.
\<close>

type_synonym window = "storage option"

section \<open>Token store of lib/auth-client\<close>

definition TOKEN_KEY :: string where
  "TOKEN_KEY = ''blp_token''"

definition getToken :: "window \<Rightarrow> string option" where
  "getToken w =
     (case w of
        None \<Rightarrow> None
      | Some st \<Rightarrow> (case getItem st TOKEN_KEY of Inl e \<Rightarrow> None | Inr v \<Rightarrow> v))"

definition setToken :: "string \<Rightarrow> window \<Rightarrow> window" where
  "setToken t w =
     (case w of
        None \<Rightarrow> None
      | Some st \<Rightarrow> (case setItem st TOKEN_KEY t of Inl e \<Rightarrow> Some st | Inr st' \<Rightarrow> Some st'))"

definition clearToken :: "window \<Rightarrow> window" where
  "clearToken w =
     (case w of
        None \<Rightarrow> None
      | Some st \<Rightarrow> (case removeItem st TOKEN_KEY of Inl e \<Rightarrow> Some st | Inr st' \<Rightarrow> Some st'))"

section \<open>Token store of lib/use-token\<close>

text \<open>
  The hook keeps the token in the state of the component that calls it (\<open>None\<close> is
  \<open>null\<close>, the initial value) and mirrors it in storage under its own key. The hook is
  only run in the browser, so it takes the storage itself.
\<close>

definition useToken_TOKEN_KEY :: string where
  "useToken_TOKEN_KEY = ''access_token''"

definition useToken_initial :: "string option" where
  "useToken_initial = None"

text \<open>The effect run once after the component has mounted.\<close>

definition useToken_effect :: "storage \<Rightarrow> string option \<Rightarrow> string option" where
  "useToken_effect st tok =
     (case getItem st useToken_TOKEN_KEY of
        Inl e \<Rightarrow> tok
      | Inr t \<Rightarrow> if truthy t then t else tok)"

definition useToken_setToken :: "string \<Rightarrow> string option \<times> storage \<Rightarrow> string option \<times> storage" where
  "useToken_setToken v x =
     (case x of (tok, st) \<Rightarrow>
        (Some v, (case setItem st useToken_TOKEN_KEY v of Inl e \<Rightarrow> st | Inr st' \<Rightarrow> st')))"

definition useToken_clearToken :: "string option \<times> storage \<Rightarrow> string option \<times> storage" where
  "useToken_clearToken x =
     (case x of (tok, st) \<Rightarrow>
        (None, (case removeItem st useToken_TOKEN_KEY of Inl e \<Rightarrow> st | Inr st' \<Rightarrow> st')))"

text \<open>
  What a component that mounts now reads through the hook: the initial state, then the
  mount effect.
\<close>

definition useToken_mounted :: "storage \<Rightarrow> string option" where
  "useToken_mounted st = useToken_effect st useToken_initial"

section \<open>HTTP\<close>

text \<open>
  What \<open>res.json()\<close> does with a body: the promise rejects, or resolves to \<open>null\<close>, or
  resolves to an object. An object is modelled with the fields its declared type names,
  each of which may be absent.
\<close>

datatype 'a json_body = Invalid thrown | Null | Object 'a

record 'a response =
  status :: nat
  statusText :: string
  body_text :: "string option"  \<comment> \<open>\<open>res.text()\<close>; \<open>None\<close> when that promise rejects\<close>
  json :: "'a json_body"

text \<open>\<open>res.ok\<close>\<close>

definition ok :: "'a response \<Rightarrow> bool" where
  "ok res = (200 \<le> status res \<and> status res \<le> 299)"

text \<open>\<open>await fetch(...)\<close> throws (no response) or gives a response.\<close>

datatype 'a fetch_result = Throws thrown | Responds "'a response"

text \<open>The two bodies the client sends, before \<open>JSON.stringify\<close>.\<close>

datatype payload =
    Credentials string string  \<comment> \<open>\<open>{ email, password }\<close>\<close>
  | Query string bool  \<comment> \<open>\<open>{ query, verbose }\<close>\<close>

record request =
  url :: string
  http_method :: string
  headers :: "(string \<times> string) list"
  body :: payload

section \<open>lib/api\<close>

text \<open>
  \<open>API_BASE\<close> reads the environment variable \<open>NEXT_PUBLIC_API_BASE_URL\<close>, the
  parameter here.
\<close>

definition API_BASE :: "string option \<Rightarrow> string" where
  "API_BASE env = or_else env ''http://localhost:8000''"

record LoginResponse =
  access_token :: "string option"
  token_type :: "string option"

text \<open>
  The fields \<open>input\<close> and \<open>output\<close> of a reasoning step are \<open>step_input\<close> and
  \<open>step_output\<close> here; no code reads them.
\<close>

record ChatReasoningStep =
  tool :: "string option"
  step_input :: "string option"
  step_output :: "string option"

record ChatResponse =
  answer :: "string option"
  user_id :: "string option"
  query :: "string option"
  reasoning_steps :: "ChatReasoningStep option list option"
  success :: "bool option"

definition loginRequest_request :: "string \<Rightarrow> string \<Rightarrow> string \<Rightarrow> request" where
  "loginRequest_request base email password =
     \<lparr>url = base @ ''/login'', http_method = ''POST'',
      headers = [(''Content-Type'', ''application/json'')],
      body = Credentials email password\<rparr>"

definition loginRequest_result :: "LoginResponse fetch_result \<Rightarrow> thrown + LoginResponse" where
  "loginRequest_result r =
     (case r of
        Throws e \<Rightarrow> Inl e
      | Responds res \<Rightarrow>
          if \<not> ok res then
            Inl (Thrown (Some (''Login failed ('' @ decimal (status res) @ ''): '' @
              or_str (or_str (or_else (body_text res) []) (statusText res)) ''Unknown error'')))
          else
            (case json res of
               Invalid e \<Rightarrow> Inl e
             | Null \<Rightarrow> Inl (Thrown (Some ''Login response missing access_token.''))
             | Object data \<Rightarrow>
                 if \<not> truthy (access_token data)
                 then Inl (Thrown (Some ''Login response missing access_token.''))
                 else Inr data))"

definition loginRequest ::
  "string \<Rightarrow> (request \<Rightarrow> LoginResponse fetch_result) \<Rightarrow> string \<Rightarrow> string \<Rightarrow> thrown + LoginResponse"
where
  "loginRequest base net email password =
     loginRequest_result (net (loginRequest_request base email password))"

definition chatRequest_request :: "string \<Rightarrow> string \<Rightarrow> string option \<Rightarrow> request" where
  "chatRequest_request base q tok =
     \<lparr>url = base @ ''/chat'', http_method = ''POST'',
      headers =
        (case tok of
           None \<Rightarrow> [(''Content-Type'', ''application/json'')]
         | Some t \<Rightarrow>
             if t = [] then [(''Content-Type'', ''application/json'')]
             else AList.update ''Authorization'' (''Bearer '' @ t)
                    [(''Content-Type'', ''application/json'')]),
      body = Query q True\<rparr>"

text \<open>The value returned is the parsed body, \<open>None\<close> when that is \<open>null\<close>.\<close>

definition chatRequest_result :: "ChatResponse fetch_result \<Rightarrow> thrown + ChatResponse option" where
  "chatRequest_result r =
     (case r of
        Throws e \<Rightarrow> Inl e
      | Responds res \<Rightarrow>
          if \<not> ok res then
            Inl (Thrown (Some (''Chat failed ('' @ decimal (status res) @ ''): '' @
              or_str (or_str (or_else (body_text res) []) (statusText res)) ''Unknown error'')))
          else
            (case json res of
               Invalid e \<Rightarrow> Inl e
             | Null \<Rightarrow> Inr None
             | Object data \<Rightarrow> Inr (Some data)))"

definition chatRequest ::
  "string \<Rightarrow> (request \<Rightarrow> ChatResponse fetch_result) \<Rightarrow> string \<Rightarrow> string option
     \<Rightarrow> thrown + ChatResponse option"
where
  "chatRequest base net q tok = chatRequest_result (net (chatRequest_request base q tok))"

section \<open>The browser around a component\<close>

text \<open>
  What the components reach outside their own state: the global object with its storage,
  and the router, of which the model keeps the arguments of \<open>router.push\<close>, oldest first.
\<close>

record browser =
  win :: window
  pushed :: "string list"

section \<open>components/chat-ui\<close>

definition ChatUI_API_BASE :: string where
  "ChatUI_API_BASE = ''http://localhost:8000''"

text \<open>
  The body type of this component has the fields of the one in lib/api and two more.
\<close>

record UI_ChatResponse = ChatResponse +
  error :: "string option"
  detail :: "string option"

text \<open>
  A message is one of two shapes, told apart by \<open>role\<close>: \<open>"user"\<close> with \<open>id\<close> and
  \<open>content\<close>, \<open>"assistant"\<close> with \<open>id\<close>, \<open>content\<close> and the optional \<open>tools\<close>.
\<close>

datatype UI_Message =
    User string string
  | Assistant string string "string list option"

text \<open>
  The state of the component, one field for each \<open>useState\<close>: \<open>token\<close>,
  \<open>messages\<close>, \<open>input\<close>, \<open>sending\<close> and \<open>error\<close>, here with the prefix \<open>ui_\<close>.
\<close>

record ChatUI_state =
  ui_token :: "string option"
  ui_messages :: "UI_Message list"
  ui_input :: string
  ui_sending :: bool
  ui_error :: "string option"

definition ChatUI_initial :: ChatUI_state where
  "ChatUI_initial =
     \<lparr>ui_token = None, ui_messages = [], ui_input = [], ui_sending = False, ui_error = None\<rparr>"

text \<open>The effect on mount: read the token, leave for the entry view when there is none.\<close>

definition ChatUI_mount :: "ChatUI_state \<times> browser \<Rightarrow> ChatUI_state \<times> browser" where
  "ChatUI_mount x =
     (case x of (s, b) \<Rightarrow>
        (let t = getToken (win b) in
         if \<not> truthy t then (s, b\<lparr>pushed := pushed b @ [''/'']\<rparr>)
         else (s\<lparr>ui_token := t\<rparr>, b)))"

text \<open>
  \<open>sendMessage\<close> up to \<open>await fetch\<close>: the new state and the request handed to
  \<open>fetch\<close>, if the function got that far. \<open>uid\<close> is the value of
  \<open>crypto.randomUUID()\<close> for the user message.
\<close>

definition ChatUI_sendMessage_start :: "string \<Rightarrow> ChatUI_state \<Rightarrow> ChatUI_state \<times> request option" where
  "ChatUI_sendMessage_start uid s =
     (if trim (ui_input s) = [] \<or> \<not> truthy (ui_token s) then (s, None)
      else
        (s\<lparr>ui_error := None,
           ui_messages := ui_messages s @ [User uid (trim (ui_input s))],
           ui_input := [],
           ui_sending := True\<rparr>,
         Some \<lparr>url = ChatUI_API_BASE @ ''/chat'', http_method = ''POST'',
               headers = [(''Content-Type'', ''application/json''),
                          (''Authorization'', ''Bearer '' @ or_else (ui_token s) [])],
               body = Query (trim (ui_input s)) True\<rparr>))"

text \<open>\<open>await res.json().catch(() => ({ error: "Invalid JSON from server" }))\<close>\<close>

definition ChatUI_data :: "UI_ChatResponse json_body \<Rightarrow> UI_ChatResponse option" where
  "ChatUI_data j =
     (case j of
        Invalid e \<Rightarrow>
          Some \<lparr>answer = None, user_id = None, query = None, reasoning_steps = None,
                success = None, error = Some ''Invalid JSON from server'', detail = None\<rparr>
      | Null \<Rightarrow> None
      | Object d \<Rightarrow> Some d)"

definition ChatUI_tools :: "UI_ChatResponse option \<Rightarrow> string list" where
  "ChatUI_tools data =
     Array_from_Set
       (filter_Boolean
          (map (\<lambda>s. Option.bind s tool)
             (case Option.bind data reasoning_steps of None \<Rightarrow> [] | Some steps \<Rightarrow> steps)))"

text \<open>
  \<open>sendMessage\<close> from the point where \<open>fetch\<close> has settled, run on the state the
  component has by then. \<open>aid\<close> is the \<open>crypto.randomUUID()\<close> of the assistant
  message. The \<open>finally\<close> block runs on every path.
\<close>

definition ChatUI_sendMessage_resume ::
  "string \<Rightarrow> UI_ChatResponse fetch_result \<Rightarrow> ChatUI_state \<times> browser \<Rightarrow> ChatUI_state \<times> browser"
where
  "ChatUI_sendMessage_resume aid r x =
     (case x of (s, b) \<Rightarrow>
        (case
           (case r of
              Throws e \<Rightarrow> (s\<lparr>ui_error := Some (or_else (message e) ''Network error'')\<rparr>, b)
            | Responds res \<Rightarrow>
                (let data = ChatUI_data (json res) in
                 if status res = 401 then
                   (s\<lparr>ui_error := Some ''Your session has expired. Please log in again.''\<rparr>,
                    b\<lparr>win := clearToken (win b), pushed := pushed b @ [''/'']\<rparr>)
                 else if \<not> ok res then
                   (s\<lparr>ui_error :=
                        Some (or_else (Option.bind data detail)
                               (or_else (Option.bind data error)
                                  (''Request failed with status '' @ decimal (status res))))\<rparr>,
                    b)
                 else
                   (s\<lparr>ui_messages := ui_messages s @
                        [Assistant aid
                           (or_else (Option.bind data answer) ''(no answer returned)'')
                           (Some (ChatUI_tools data))]\<rparr>,
                    b)))
         of (s', b') \<Rightarrow> (s'\<lparr>ui_sending := False\<rparr>, b')))"

text \<open>The whole call, against a network that answers each request.\<close>

definition ChatUI_sendMessage ::
  "(request \<Rightarrow> UI_ChatResponse fetch_result) \<Rightarrow> string \<Rightarrow> string
     \<Rightarrow> ChatUI_state \<times> browser \<Rightarrow> ChatUI_state \<times> browser"
where
  "ChatUI_sendMessage net uid aid x =
     (case x of (s, b) \<Rightarrow>
        (case ChatUI_sendMessage_start uid s of
           (s', None) \<Rightarrow> (s', b)
         | (s', Some req) \<Rightarrow> ChatUI_sendMessage_resume aid (net req) (s', b)))"

definition onLogout :: "browser \<Rightarrow> browser" where
  "onLogout b = b\<lparr>win := clearToken (win b), pushed := pushed b @ [''/'']\<rparr>"

text \<open>The names shown as badges under a message.\<close>

definition ChatUI_badges :: "UI_Message \<Rightarrow> string list" where
  "ChatUI_badges m =
     (case m of
        User i c \<Rightarrow> []
      | Assistant i c ts \<Rightarrow>
          (case ts of None \<Rightarrow> [] | Some l \<Rightarrow> if length l > 0 then l else []))"

text \<open>
  The handlers of the view. \<open>onClick\<close> of the Send button is \<open>sendMessage\<close> itself;
  \<open>onKeyDown\<close> of the textarea calls it on Enter with Cmd or Ctrl held and does nothing
  on any other key.
\<close>

definition ChatUI_onKeyDown ::
  "string \<Rightarrow> bool \<Rightarrow> bool \<Rightarrow> string \<Rightarrow> ChatUI_state \<Rightarrow> ChatUI_state \<times> request option"
where
  "ChatUI_onKeyDown key metaKey ctrlKey uid s =
     (if key = ''Enter'' \<and> (metaKey \<or> ctrlKey) then ChatUI_sendMessage_start uid s
      else (s, None))"

text \<open>The values the view gives to \<open>disabled\<close> of the textarea and of the Send button.\<close>

definition ChatUI_textarea_disabled :: "ChatUI_state \<Rightarrow> bool" where
  "ChatUI_textarea_disabled s = (\<not> truthy (ui_token s) \<or> ui_sending s)"

definition ChatUI_button_disabled :: "ChatUI_state \<Rightarrow> bool" where
  "ChatUI_button_disabled s =
     (\<not> truthy (ui_token s) \<or> ui_sending s \<or> trim (ui_input s) = [])"

section \<open>The chat page built on lib/api and lib/use-token\<close>

datatype Role = user | assistant

record Message =
  role :: Role
  content :: string
  tools :: "string list option"

text \<open>
  The state of the page: \<open>pg_token\<close> is the state of its \<open>useToken\<close> hook, the
  others are its own \<open>messages\<close>, \<open>input\<close>, \<open>loading\<close> and \<open>error\<close>, here with
  the prefix \<open>pg_\<close>.
\<close>

record ChatPage_state =
  pg_token :: "string option"
  pg_messages :: "Message list"
  pg_input :: string
  pg_loading :: bool
  pg_error :: "string option"

definition ChatPage_initial :: ChatPage_state where
  "ChatPage_initial =
     \<lparr>pg_token = useToken_initial, pg_messages = [],
      pg_input = ''I forgot my login credentials. what do i do?'',
      pg_loading = False, pg_error = None\<rparr>"

definition ChatPage_mount :: "storage \<Rightarrow> ChatPage_state \<Rightarrow> ChatPage_state" where
  "ChatPage_mount st s = s\<lparr>pg_token := useToken_effect st (pg_token s)\<rparr>"

text \<open>\<open>token || undefined\<close>\<close>

definition or_undefined :: "string option \<Rightarrow> string option" where
  "or_undefined tok = (if truthy tok then tok else None)"

text \<open>
  \<open>sendMessage\<close> up to the \<open>await fetch\<close> inside \<open>chatRequest\<close>: the new state and
  the request handed to \<open>fetch\<close>, if the function got that far. \<open>base\<close> is
  \<open>API_BASE\<close>.
\<close>

definition ChatPage_sendMessage_start :: "string \<Rightarrow> ChatPage_state \<Rightarrow> ChatPage_state \<times> request option" where
  "ChatPage_sendMessage_start base s =
     (if trim (pg_input s) = [] then (s, None)
      else
        (s\<lparr>pg_error := None,
           pg_loading := True,
           pg_messages := pg_messages s @ [\<lparr>role = user, content = pg_input s, tools = None\<rparr>]\<rparr>,
         Some (chatRequest_request base (pg_input s) (or_undefined (pg_token s)))))"

text \<open>
  \<open>sendMessage\<close> from the point where that \<open>fetch\<close> has settled: the rest of
  \<open>chatRequest\<close>, then the rest of the \<open>try\<close>, the \<open>catch\<close> and the \<open>finally\<close>,
  run on the state the page has by then. Nothing here calls the router or the storage:
  the browser comes back as it went in.
\<close>

definition ChatPage_sendMessage_resume ::
  "ChatResponse fetch_result \<Rightarrow> ChatPage_state \<times> browser \<Rightarrow> ChatPage_state \<times> browser"
where
  "ChatPage_sendMessage_resume r x =
     (case x of (s, b) \<Rightarrow>
        (case chatRequest_result r of
           Inl err \<Rightarrow>
             (s\<lparr>pg_error :=
                  Some (or_else (message err) ''Something went wrong sending your message.''),
                pg_loading := False\<rparr>,
              b)
         | Inr res \<Rightarrow>
             (s\<lparr>pg_messages := pg_messages s @
                  [\<lparr>role = assistant,
                    content = or_else (Option.bind res answer) ''(No answer provided.)'',
                    tools =
                      (case Option.bind res reasoning_steps of
                         None \<Rightarrow> None
                       | Some steps \<Rightarrow>
                           Some (filter_Boolean (map (\<lambda>st. Option.bind st tool) steps)))\<rparr>],
                pg_input := [],
                pg_loading := False\<rparr>,
              b)))"

definition ChatPage_sendMessage ::
  "string \<Rightarrow> (request \<Rightarrow> ChatResponse fetch_result) \<Rightarrow> ChatPage_state \<times> browser
     \<Rightarrow> ChatPage_state \<times> browser"
where
  "ChatPage_sendMessage base net x =
     (case x of (s, b) \<Rightarrow>
        (case ChatPage_sendMessage_start base s of
           (s', None) \<Rightarrow> (s', b)
         | (s', Some req) \<Rightarrow> ChatPage_sendMessage_resume (net req) (s', b)))"

text \<open>The names shown as badges under a message.\<close>

definition ChatPage_badges :: "Message \<Rightarrow> string list" where
  "ChatPage_badges m =
     (if role m = assistant then
        (case tools m of
           None \<Rightarrow> []
         | Some ts \<Rightarrow> if length ts > 0 then Array_from_Set ts else [])
      else [])"

text \<open>\<open>onSubmit\<close> of the form: \<open>e.preventDefault()\<close>, then \<open>sendMessage\<close>.\<close>

definition ChatPage_onSubmit :: "string \<Rightarrow> ChatPage_state \<Rightarrow> ChatPage_state \<times> request option" where
  "ChatPage_onSubmit base s = ChatPage_sendMessage_start base s"

text \<open>The values the view gives to \<open>disabled\<close> of the textarea and of the submit button.\<close>

definition ChatPage_textarea_disabled :: "ChatPage_state \<Rightarrow> bool" where
  "ChatPage_textarea_disabled s = pg_loading s"

definition ChatPage_button_disabled :: "ChatPage_state \<Rightarrow> bool" where
  "ChatPage_button_disabled s = (pg_loading s \<or> trim (pg_input s) = [])"

section \<open>The sign-in form built on lib/auth-client\<close>

datatype Mode = login | register

text \<open>
  The body of an answer to \<open>/login\<close> or \<open>/register\<close> as this form reads it: the token
  fields and the fields \<open>error\<close> and \<open>detail\<close>, here \<open>auth_error\<close> and
  \<open>auth_detail\<close>.
\<close>

record AuthData = LoginResponse +
  auth_error :: "string option"
  auth_detail :: "string option"

definition AuthForm_API_BASE :: string where
  "AuthForm_API_BASE = ''http://localhost:8000''"

definition error_object :: "string \<Rightarrow> AuthData" where
  "error_object m =
     \<lparr>access_token = None, token_type = None, auth_error = Some m, auth_detail = None\<rparr>"

definition empty_object :: AuthData where
  "empty_object =
     \<lparr>access_token = None, token_type = None, auth_error = None, auth_detail = None\<rparr>"

definition authRequest_request :: "Mode \<Rightarrow> string \<Rightarrow> string \<Rightarrow> request" where
  "authRequest_request mode email password =
     \<lparr>url = (if mode = login then AuthForm_API_BASE @ ''/login''
             else AuthForm_API_BASE @ ''/register''),
      http_method = ''POST'',
      headers = [(''Content-Type'', ''application/json'')],
      body = Credentials email password\<rparr>"

text \<open>The value returned is an object, or \<open>None\<close> for \<open>null\<close>.\<close>

definition authRequest ::
  "(request \<Rightarrow> AuthData fetch_result) \<Rightarrow> Mode \<Rightarrow> string \<Rightarrow> string \<Rightarrow> AuthData option"
where
  "authRequest net mode email password =
     (case net (authRequest_request mode email password) of
        Throws e \<Rightarrow> Some (error_object (or_else (message e) ''Network error''))
      | Responds res \<Rightarrow>
          (let data = (case json res of
                         Invalid e \<Rightarrow> Some empty_object
                       | Null \<Rightarrow> None
                       | Object d \<Rightarrow> Some d) in
           if \<not> ok res then
             Some (error_object
                     (or_else (Option.bind data auth_detail)
                        (or_else (Option.bind data auth_error)
                           (''Request failed with status '' @ decimal (status res)))))
           else data))"

text \<open>
  The state of the form: \<open>mode\<close>, \<open>email\<close>, \<open>password\<close>, \<open>loading\<close> and
  \<open>error\<close>, here with the prefix \<open>af_\<close>.
\<close>

record AuthForm_state =
  af_mode :: Mode
  af_email :: string
  af_password :: string
  af_loading :: bool
  af_error :: "string option"

text \<open>
  How a call of \<open>onSubmit\<close> ends: it returns, or reading \<open>result.error\<close> of a
  \<open>null\<close> result throws a \<open>TypeError\<close> that nothing catches.
\<close>

datatype completion = Returns | Uncaught_TypeError

definition AuthForm_onSubmit ::
  "(request \<Rightarrow> AuthData fetch_result) \<Rightarrow> AuthForm_state \<times> browser
     \<Rightarrow> (AuthForm_state \<times> browser) \<times> completion"
where
  "AuthForm_onSubmit net x =
     (case x of (s, b) \<Rightarrow>
        if af_email s = [] \<or> af_password s = [] then
          ((s\<lparr>af_error := Some ''Please provide both email and password.''\<rparr>, b), Returns)
        else
          (case authRequest net (af_mode s) (af_email s) (af_password s) of
             None \<Rightarrow> ((s\<lparr>af_error := None, af_loading := False\<rparr>, b), Uncaught_TypeError)
           | Some result \<Rightarrow>
               if truthy (auth_error result) then
                 ((s\<lparr>af_error := auth_error result, af_loading := False\<rparr>, b), Returns)
               else if truthy (access_token result) then
                 ((s\<lparr>af_error := None, af_loading := False\<rparr>,
                   b\<lparr>win := setToken (or_else (access_token result) []) (win b),
                     pushed := pushed b @ [''/chat'']\<rparr>),
                  Returns)
               else
                 ((s\<lparr>af_error := Some ''No access token returned from server.'',
                     af_loading := False\<rparr>, b),
                  Returns)))"

section \<open>Facts about the operations\<close>

lemma or_else_nonempty: "d \<noteq> [] \<Longrightarrow> or_else v d \<noteq> []"
  by (simp add: or_else_def split: option.splits)

lemma truthy_Some_or_else: "d \<noteq> [] \<Longrightarrow> truthy (Some (or_else v d))"
  by (simp add: truthy_def or_else_def split: option.splits)

lemma ok_not_401: "ok res \<Longrightarrow> status res \<noteq> 401"
  by (simp add: ok_def)

lemma getToken_clearToken: "getToken (clearToken w) = None"
  by (cases w) (simp_all add: getToken_def clearToken_def getItem_def removeItem_def)

subsection \<open>The paths of \<open>sendMessage\<close> in components/chat-ui\<close>

lemma ChatUI_start_rejects:
  "trim (ui_input s) = [] \<or> \<not> truthy (ui_token s) \<Longrightarrow>
   ChatUI_sendMessage_start uid s = (s, None)"
  by (auto simp add: ChatUI_sendMessage_start_def)

lemma ChatUI_start_accepts:
  "trim (ui_input s) \<noteq> [] \<Longrightarrow> truthy (ui_token s) \<Longrightarrow>
   \<exists>req. ChatUI_sendMessage_start uid s =
     (s\<lparr>ui_error := None, ui_messages := ui_messages s @ [User uid (trim (ui_input s))],
        ui_input := [], ui_sending := True\<rparr>, Some req)"
  by (simp add: ChatUI_sendMessage_start_def)

lemma ChatUI_resume_throws:
  "ChatUI_sendMessage_resume aid (Throws e) (s, b) =
     (s\<lparr>ui_error := Some (or_else (message e) ''Network error''), ui_sending := False\<rparr>, b)"
  by (simp add: ChatUI_sendMessage_resume_def)

lemma ChatUI_resume_401:
  "status res = 401 \<Longrightarrow>
   ChatUI_sendMessage_resume aid (Responds res) (s, b) =
     (s\<lparr>ui_error := Some ''Your session has expired. Please log in again.'',
        ui_sending := False\<rparr>,
      b\<lparr>win := clearToken (win b), pushed := pushed b @ [''/'']\<rparr>)"
  by (simp add: ChatUI_sendMessage_resume_def Let_def)

lemma ChatUI_resume_not_ok:
  "status res \<noteq> 401 \<Longrightarrow> \<not> ok res \<Longrightarrow>
   ChatUI_sendMessage_resume aid (Responds res) (s, b) =
     (s\<lparr>ui_error := Some (or_else (Option.bind (ChatUI_data (json res)) detail)
                         (or_else (Option.bind (ChatUI_data (json res)) error)
                            (''Request failed with status '' @ decimal (status res)))),
        ui_sending := False\<rparr>, b)"
  by (simp add: ChatUI_sendMessage_resume_def Let_def)

lemma ChatUI_resume_ok:
  "ok res \<Longrightarrow>
   ChatUI_sendMessage_resume aid (Responds res) (s, b) =
     (s\<lparr>ui_messages := ui_messages s @
          [Assistant aid
             (or_else (Option.bind (ChatUI_data (json res)) answer) ''(no answer returned)'')
             (Some (ChatUI_tools (ChatUI_data (json res))))],
        ui_sending := False\<rparr>, b)"
  using ok_not_401 [of res] by (simp add: ChatUI_sendMessage_resume_def Let_def)

lemma ChatUI_resume_fails:
  assumes "r = Throws e \<or> (r = Responds res \<and> \<not> ok res)"
  shows "ui_messages (fst (ChatUI_sendMessage_resume aid r (s, b))) = ui_messages s
         \<and> truthy (ui_error (fst (ChatUI_sendMessage_resume aid r (s, b))))
         \<and> \<not> ui_sending (fst (ChatUI_sendMessage_resume aid r (s, b)))"
proof -
  consider (t) "r = Throws e" | (u) "r = Responds res" "status res = 401"
    | (n) "r = Responds res" "status res \<noteq> 401" "\<not> ok res"
    using assms by blast
  then show ?thesis
  proof cases
    case t
    then show ?thesis by (simp add: ChatUI_resume_throws truthy_Some_or_else)
  next
    case u
    then show ?thesis by (simp add: ChatUI_resume_401 truthy_def)
  next
    case n
    have "truthy (Some (or_else (Option.bind (ChatUI_data (json res)) detail)
                         (or_else (Option.bind (ChatUI_data (json res)) error)
                            (''Request failed with status '' @ decimal (status res)))))"
      by (intro truthy_Some_or_else or_else_nonempty) simp
    then show ?thesis
      by (simp add: n(1) ChatUI_resume_not_ok [OF n(2) n(3)])
  qed
qed

subsection \<open>The paths of \<open>chatRequest\<close> and of \<open>sendMessage\<close> in the chat page\<close>

lemma chatRequest_result_throws: "chatRequest_result (Throws e) = Inl e"
  by (simp add: chatRequest_result_def)

lemma chatRequest_result_not_ok:
  "\<not> ok res \<Longrightarrow>
   chatRequest_result (Responds res) =
     Inl (Thrown (Some (''Chat failed ('' @ decimal (status res) @ ''): '' @
       or_str (or_str (or_else (body_text res) []) (statusText res)) ''Unknown error'')))"
  by (simp add: chatRequest_result_def)

lemma chatRequest_result_ok:
  "ok res \<Longrightarrow>
   chatRequest_result (Responds res) =
     (case json res of Invalid e \<Rightarrow> Inl e | Null \<Rightarrow> Inr None | Object d \<Rightarrow> Inr (Some d))"
  by (simp add: chatRequest_result_def)

lemma ChatPage_start_rejects:
  "trim (pg_input s) = [] \<Longrightarrow> ChatPage_sendMessage_start base s = (s, None)"
  by (simp add: ChatPage_sendMessage_start_def)

lemma ChatPage_start_accepts:
  "trim (pg_input s) \<noteq> [] \<Longrightarrow>
   ChatPage_sendMessage_start base s =
     (s\<lparr>pg_error := None, pg_loading := True,
        pg_messages := pg_messages s @ [\<lparr>role = user, content = pg_input s, tools = None\<rparr>]\<rparr>,
      Some (chatRequest_request base (pg_input s) (or_undefined (pg_token s))))"
  by (simp add: ChatPage_sendMessage_start_def)

lemma ChatPage_resume_fails:
  "chatRequest_result r = Inl err \<Longrightarrow>
   ChatPage_sendMessage_resume r (s, b) =
     (s\<lparr>pg_error := Some (or_else (message err) ''Something went wrong sending your message.''),
        pg_loading := False\<rparr>, b)"
  by (simp add: ChatPage_sendMessage_resume_def)

lemma ChatPage_resume_succeeds:
  "chatRequest_result r = Inr res \<Longrightarrow>
   ChatPage_sendMessage_resume r (s, b) =
     (s\<lparr>pg_messages := pg_messages s @
          [\<lparr>role = assistant,
            content = or_else (Option.bind res answer) ''(No answer provided.)'',
            tools = (case Option.bind res reasoning_steps of
                       None \<Rightarrow> None
                     | Some steps \<Rightarrow>
                         Some (filter_Boolean (map (\<lambda>st. Option.bind st tool) steps)))\<rparr>],
        pg_input := [], pg_loading := False\<rparr>, b)"
  by (simp add: ChatPage_sendMessage_resume_def)

lemma ChatPage_resume_failure:
  assumes "r = Throws e \<or> (r = Responds res \<and> \<not> ok res)"
  shows "pg_messages (fst (ChatPage_sendMessage_resume r (p, b))) = pg_messages p
         \<and> truthy (pg_error (fst (ChatPage_sendMessage_resume r (p, b))))
         \<and> \<not> pg_loading (fst (ChatPage_sendMessage_resume r (p, b)))"
proof -
  obtain err where "chatRequest_result r = Inl err"
    using assms chatRequest_result_throws chatRequest_result_not_ok by blast
  then show ?thesis
    by (simp add: ChatPage_resume_fails truthy_Some_or_else)
qed

subsection \<open>First-seen order\<close>

lemma foldl_Set_add:
  "foldl Set_add acc xs = acc @ dedup_first_seen (filter (\<lambda>x. x \<notin> set acc) xs)"
proof (induction xs arbitrary: acc)
  case Nil
  show ?case by simp
next
  case (Cons x xs)
  show ?case
  proof (cases "x \<in> set acc")
    case True
    then have "Set_add acc x = acc" by (simp add: Set_add_def)
    with True show ?thesis by (simp add: Cons.IH)
  next
    case False
    then have a: "Set_add acc x = acc @ [x]" by (simp add: Set_add_def)
    have "removeAll x (filter (\<lambda>y. y \<notin> set acc) xs) = filter (\<lambda>y. y \<notin> set (acc @ [x])) xs"
      by (induction xs) auto
    with False show ?thesis by (simp add: Cons.IH a)
  qed
qed

lemma Array_from_Set_dedup: "Array_from_Set xs = dedup_first_seen xs"
  by (simp add: Array_from_Set_def foldl_Set_add)

lemma set_dedup_first_seen: "set (dedup_first_seen xs) = set xs"
  by (induction xs rule: dedup_first_seen.induct) auto

lemma distinct_dedup_first_seen: "distinct (dedup_first_seen xs)"
  by (induction xs rule: dedup_first_seen.induct) (auto simp: set_dedup_first_seen)

lemma filter_Boolean_names:
  "filter_Boolean (map (\<lambda>s. Option.bind s tool)
     (map (\<lambda>n. Some \<lparr>tool = Some n, step_input = i, step_output = out\<rparr>) ns))
   = filter (\<lambda>n. n \<noteq> []) ns"
  by (induction ns) (auto simp: filter_Boolean_def)

lemma ChatPage_badges_assistant:
  "ChatPage_badges \<lparr>role = assistant, content = c, tools = Some ts\<rparr> = dedup_first_seen ts"
  by (cases ts) (simp_all add: ChatPage_badges_def Array_from_Set_dedup)

subsection \<open>The paths of \<open>loginRequest\<close>, \<open>authRequest\<close> and the form's \<open>onSubmit\<close>\<close>

lemma loginRequest_result_not_ok:
  "\<not> ok res \<Longrightarrow>
   loginRequest_result (Responds res) =
     Inl (Thrown (Some (''Login failed ('' @ decimal (status res) @ ''): '' @
       or_str (or_str (or_else (body_text res) []) (statusText res)) ''Unknown error'')))"
  by (simp add: loginRequest_result_def)

lemma loginRequest_result_Inr:
  "loginRequest_result r = Inr d \<longleftrightarrow>
     (\<exists>res. r = Responds res \<and> ok res \<and> json res = Object d \<and> truthy (access_token d))"
  by (auto simp: loginRequest_result_def split: fetch_result.splits json_body.splits if_splits)

lemma authRequest_ok:
  "net (authRequest_request mode email password) = Responds res \<Longrightarrow> ok res \<Longrightarrow>
   authRequest net mode email password =
     (case json res of Invalid e \<Rightarrow> Some empty_object | Null \<Rightarrow> None | Object d \<Rightarrow> Some d)"
  by (simp add: authRequest_def Let_def)

lemma authRequest_fails:
  assumes "net (authRequest_request mode email password) = Throws e
     \<or> (net (authRequest_request mode email password) = Responds res \<and> \<not> ok res)"
  shows "\<exists>m. m \<noteq> [] \<and> authRequest net mode email password = Some (error_object m)"
proof -
  from assms consider (t) "net (authRequest_request mode email password) = Throws e"
    | (n) "net (authRequest_request mode email password) = Responds res" "\<not> ok res"
    by blast
  then show ?thesis
  proof cases
    case t
    have "or_else (message e) ''Network error'' \<noteq> []" by (rule or_else_nonempty) simp
    then show ?thesis by (auto simp: authRequest_def t)
  next
    case n
    let ?data = "case json res of Invalid e \<Rightarrow> Some empty_object | Null \<Rightarrow> None
                 | Object d \<Rightarrow> Some d"
    have "or_else (Option.bind ?data auth_detail)
            (or_else (Option.bind ?data auth_error)
               (''Request failed with status '' @ decimal (status res))) \<noteq> []"
      by (intro or_else_nonempty) simp
    then show ?thesis by (auto simp: authRequest_def n Let_def)
  qed
qed

lemma AuthForm_onSubmit_error:
  "af_email s \<noteq> [] \<Longrightarrow> af_password s \<noteq> [] \<Longrightarrow> m \<noteq> [] \<Longrightarrow>
   authRequest net (af_mode s) (af_email s) (af_password s) = Some (error_object m) \<Longrightarrow>
   AuthForm_onSubmit net (s, b) = ((s\<lparr>af_error := Some m, af_loading := False\<rparr>, b), Returns)"
  by (simp add: AuthForm_onSubmit_def error_object_def truthy_def)

lemma AuthForm_onSubmit_browser:
  assumes "snd (fst (AuthForm_onSubmit net (s, b))) \<noteq> b"
  shows "\<exists>res d. net (authRequest_request (af_mode s) (af_email s) (af_password s)) = Responds res
           \<and> ok res \<and> json res = Object d \<and> truthy (access_token d)
           \<and> snd (fst (AuthForm_onSubmit net (s, b)))
               = b\<lparr>win := setToken (or_else (access_token d) []) (win b),
                    pushed := pushed b @ [''/chat'']\<rparr>"
proof -
  from assms have ne: "af_email s \<noteq> []" "af_password s \<noteq> []"
    by (auto simp: AuthForm_onSubmit_def)
  show ?thesis
  proof (cases "net (authRequest_request (af_mode s) (af_email s) (af_password s))")
    case (Throws e)
    then obtain m where "m \<noteq> []"
      "authRequest net (af_mode s) (af_email s) (af_password s) = Some (error_object m)"
      using authRequest_fails [of net "af_mode s" "af_email s" "af_password s" e] by blast
    then show ?thesis using assms ne by (simp add: AuthForm_onSubmit_error)
  next
    case (Responds res)
    show ?thesis
    proof (cases "ok res")
      case False
      then obtain m where "m \<noteq> []"
        "authRequest net (af_mode s) (af_email s) (af_password s) = Some (error_object m)"
        using authRequest_fails [of net "af_mode s" "af_email s" "af_password s" _ res] Responds
        by blast
      then show ?thesis using assms ne by (simp add: AuthForm_onSubmit_error)
    next
      case True
      note a = authRequest_ok [where net = net, OF Responds True]
      show ?thesis
      proof (cases "json res")
        case (Invalid e)
        then show ?thesis using assms ne
          by (simp add: AuthForm_onSubmit_def a empty_object_def truthy_def)
      next
        case Null
        then show ?thesis using assms ne by (simp add: AuthForm_onSubmit_def a)
      next
        case (Object d)
        then show ?thesis using assms ne Responds True
          by (simp add: AuthForm_onSubmit_def a split: if_splits)
      qed
    qed
  qed
qed

section \<open>The claims\<close>

subsection \<open>C1: a submit while a send is in flight\<close>

text \<open>
  C1, as amended. In the chat-ui component, in the state in which \<open>sendMessage\<close> leaves
  the component when it has handed its request to \<open>fetch\<close>, \<open>sending\<close> is set and the
  input is empty, and a further call of \<open>sendMessage\<close>, direct, from the Send button or
  from \<open>onKeyDown\<close>, is a no-op: the state, and with it the log, is unchanged and no
  request is issued. In the chat page, \<open>sendMessage\<close> does not look at \<open>loading\<close> and
  leaves the input in place: with a non-blank input it does while a send is in flight
  what it does otherwise. In both views the textarea and the send button are given
  \<open>disabled\<close> while a send is in flight.
\<close>

theorem second_submit_while_sending:
  "(ChatUI_sendMessage_start uid s = (s', Some req) \<longrightarrow>
      ui_sending s' \<and> ui_input s' = []
      \<and> ChatUI_sendMessage_start uid' s' = (s', None)
      \<and> ChatUI_onKeyDown key metaKey ctrlKey uid' s' = (s', None)
      \<and> ChatUI_sendMessage net uid' aid' (s', b) = (s', b))
   \<and> (ui_sending s \<longrightarrow> ChatUI_textarea_disabled s \<and> ChatUI_button_disabled s)
   \<and> (ChatPage_sendMessage_start base p = (p', Some preq) \<longrightarrow>
      pg_loading p' \<and> pg_input p' = pg_input p)
   \<and> (trim (pg_input p) \<noteq> [] \<longrightarrow>
      ChatPage_sendMessage_start base (p\<lparr>pg_loading := True\<rparr>)
        = ChatPage_sendMessage_start base p
      \<and> ChatPage_onSubmit base (p\<lparr>pg_loading := True\<rparr>) = ChatPage_sendMessage_start base p)
   \<and> (pg_loading p \<longrightarrow> ChatPage_textarea_disabled p \<and> ChatPage_button_disabled p)"
proof (intro conjI impI)
  assume h: "ChatUI_sendMessage_start uid s = (s', Some req)"
  then have s': "s' = s\<lparr>ui_error := None,
      ui_messages := ui_messages s @ [User uid (trim (ui_input s))],
      ui_input := [], ui_sending := True\<rparr>"
    by (auto simp: ChatUI_sendMessage_start_def split: if_splits)
  show "ui_sending s'" by (simp add: s')
  show "ui_input s' = []" by (simp add: s')
  have blank: "trim (ui_input s') = []" by (simp add: s' trim_def)
  then show again: "ChatUI_sendMessage_start uid' s' = (s', None)"
    by (simp add: ChatUI_start_rejects)
  then show "ChatUI_onKeyDown key metaKey ctrlKey uid' s' = (s', None)"
    by (simp add: ChatUI_onKeyDown_def)
  from again show "ChatUI_sendMessage net uid' aid' (s', b) = (s', b)"
    by (simp add: ChatUI_sendMessage_def)
next
  assume "ui_sending s"
  then show "ChatUI_textarea_disabled s" by (simp add: ChatUI_textarea_disabled_def)
  from \<open>ui_sending s\<close> show "ChatUI_button_disabled s" by (simp add: ChatUI_button_disabled_def)
next
  assume h: "ChatPage_sendMessage_start base p = (p', Some preq)"
  then have p': "p' = p\<lparr>pg_error := None, pg_loading := True,
      pg_messages := pg_messages p @ [\<lparr>role = user, content = pg_input p, tools = None\<rparr>]\<rparr>"
    by (auto simp: ChatPage_sendMessage_start_def split: if_splits)
  show "pg_loading p'" by (simp add: p')
  show "pg_input p' = pg_input p" by (simp add: p')
next
  assume h: "trim (pg_input p) \<noteq> []"
  then show a: "ChatPage_sendMessage_start base (p\<lparr>pg_loading := True\<rparr>)
      = ChatPage_sendMessage_start base p"
    by (simp add: ChatPage_sendMessage_start_def)
  then show "ChatPage_onSubmit base (p\<lparr>pg_loading := True\<rparr>) = ChatPage_sendMessage_start base p"
    by (simp add: ChatPage_onSubmit_def)
next
  assume "pg_loading p"
  then show "ChatPage_textarea_disabled p" by (simp add: ChatPage_textarea_disabled_def)
  from \<open>pg_loading p\<close> show "ChatPage_button_disabled p"
    by (simp add: ChatPage_button_disabled_def)
qed

text \<open>
  The theorem at a submit of \<open>hello\<close> in the chat-ui component, followed by
  Ctrl+Enter, and at the chat page with its first question.
\<close>

theorem second_submit_while_sending_witness:
  "ChatUI_sendMessage_start ''u2''
     \<lparr>ui_token = Some ''tok123'', ui_messages = [User ''u1'' ''hello''], ui_input = [],
       ui_sending = True, ui_error = None\<rparr>
     = (\<lparr>ui_token = Some ''tok123'', ui_messages = [User ''u1'' ''hello''], ui_input = [],
         ui_sending = True, ui_error = None\<rparr>, None)
   \<and> ChatUI_onKeyDown ''Enter'' False True ''u2''
     \<lparr>ui_token = Some ''tok123'', ui_messages = [User ''u1'' ''hello''], ui_input = [],
       ui_sending = True, ui_error = None\<rparr>
     = (\<lparr>ui_token = Some ''tok123'', ui_messages = [User ''u1'' ''hello''], ui_input = [],
         ui_sending = True, ui_error = None\<rparr>, None)
   \<and> ChatUI_button_disabled
     \<lparr>ui_token = Some ''tok123'', ui_messages = [User ''u1'' ''hello''], ui_input = [],
       ui_sending = True, ui_error = None\<rparr>
   \<and> ChatPage_sendMessage_start ''http://localhost:8000'' (ChatPage_initial\<lparr>pg_loading := True\<rparr>)
     = ChatPage_sendMessage_start ''http://localhost:8000'' ChatPage_initial
   \<and> ChatPage_button_disabled (ChatPage_initial\<lparr>pg_loading := True\<rparr>)"
proof -
  have st: "ChatUI_sendMessage_start ''u1''
      \<lparr>ui_token = Some ''tok123'', ui_messages = [], ui_input = ''hello'', ui_sending = False,
        ui_error = None\<rparr>
    = (\<lparr>ui_token = Some ''tok123'', ui_messages = [User ''u1'' ''hello''], ui_input = [],
        ui_sending = True, ui_error = None\<rparr>,
       Some \<lparr>url = ''http://localhost:8000/chat'', http_method = ''POST'',
             headers = [(''Content-Type'', ''application/json''),
                        (''Authorization'', ''Bearer tok123'')],
             body = Query ''hello'' True\<rparr>)"
    by (simp add: ChatUI_sendMessage_start_def trim_def isWhiteSpace_def truthy_def
        ChatUI_API_BASE_def or_else_def)
  have nb: "trim (pg_input ChatPage_initial) \<noteq> []"
    by (simp add: ChatPage_initial_def trim_def isWhiteSpace_def)
  have a: "ChatUI_sendMessage_start ''u2''
     \<lparr>ui_token = Some ''tok123'', ui_messages = [User ''u1'' ''hello''], ui_input = [],
       ui_sending = True, ui_error = None\<rparr>
     = (\<lparr>ui_token = Some ''tok123'', ui_messages = [User ''u1'' ''hello''], ui_input = [],
         ui_sending = True, ui_error = None\<rparr>, None)
   \<and> ChatUI_onKeyDown ''Enter'' False True ''u2''
     \<lparr>ui_token = Some ''tok123'', ui_messages = [User ''u1'' ''hello''], ui_input = [],
       ui_sending = True, ui_error = None\<rparr>
     = (\<lparr>ui_token = Some ''tok123'', ui_messages = [User ''u1'' ''hello''], ui_input = [],
         ui_sending = True, ui_error = None\<rparr>, None)"
    using st second_submit_while_sending
      [where uid = "''u1''" and uid' = "''u2''" and key = "''Enter''" and metaKey = False
       and ctrlKey = True
       and s = "\<lparr>ui_token = Some ''tok123'', ui_messages = [], ui_input = ''hello'',
                 ui_sending = False, ui_error = None\<rparr>"
       and s' = "\<lparr>ui_token = Some ''tok123'', ui_messages = [User ''u1'' ''hello''],
                  ui_input = [], ui_sending = True, ui_error = None\<rparr>"
       and req = "\<lparr>url = ''http://localhost:8000/chat'', http_method = ''POST'',
             headers = [(''Content-Type'', ''application/json''),
                        (''Authorization'', ''Bearer tok123'')],
             body = Query ''hello'' True\<rparr>"]
    by blast
  have b: "ChatUI_button_disabled
     \<lparr>ui_token = Some ''tok123'', ui_messages = [User ''u1'' ''hello''], ui_input = [],
       ui_sending = True, ui_error = None\<rparr>"
    using second_submit_while_sending
      [where s = "\<lparr>ui_token = Some ''tok123'', ui_messages = [User ''u1'' ''hello''],
                 ui_input = [], ui_sending = True, ui_error = None\<rparr>"]
    by simp
  have c: "ChatPage_sendMessage_start ''http://localhost:8000'' (ChatPage_initial\<lparr>pg_loading := True\<rparr>)
     = ChatPage_sendMessage_start ''http://localhost:8000'' ChatPage_initial"
    using nb second_submit_while_sending
      [where p = ChatPage_initial and base = "''http://localhost:8000''"]
    by blast
  have d: "ChatPage_button_disabled (ChatPage_initial\<lparr>pg_loading := True\<rparr>)"
    using second_submit_while_sending [where p = "ChatPage_initial\<lparr>pg_loading := True\<rparr>"]
    by simp
  from a b c d show ?thesis by blast
qed

text \<open>
  C1 as stated fails in the chat page, which starts with a question in its input. Its
  first \<open>sendMessage\<close> sets \<open>loading\<close>, appends the question and hands a request to
  \<open>fetch\<close>, and leaves the input as it is; a second \<open>sendMessage\<close> in that state,
  with the send in flight, appends the question again and hands over a second request.
\<close>

theorem second_submit_counterexample:
  "ChatPage_sendMessage_start ''http://localhost:8000'' ChatPage_initial
     = (\<lparr>pg_token = None,
         pg_messages = [\<lparr>role = user, content = ''I forgot my login credentials. what do i do?'',
                          tools = None\<rparr>],
         pg_input = ''I forgot my login credentials. what do i do?'',
         pg_loading = True, pg_error = None\<rparr>,
        Some \<lparr>url = ''http://localhost:8000/chat'', http_method = ''POST'',
              headers = [(''Content-Type'', ''application/json'')],
              body = Query ''I forgot my login credentials. what do i do?'' True\<rparr>)
   \<and> ChatPage_sendMessage_start ''http://localhost:8000''
       \<lparr>pg_token = None,
         pg_messages = [\<lparr>role = user, content = ''I forgot my login credentials. what do i do?'',
                          tools = None\<rparr>],
         pg_input = ''I forgot my login credentials. what do i do?'',
         pg_loading = True, pg_error = None\<rparr>
     = (\<lparr>pg_token = None,
         pg_messages = [\<lparr>role = user, content = ''I forgot my login credentials. what do i do?'',
                          tools = None\<rparr>,
                        \<lparr>role = user, content = ''I forgot my login credentials. what do i do?'',
                          tools = None\<rparr>],
         pg_input = ''I forgot my login credentials. what do i do?'',
         pg_loading = True, pg_error = None\<rparr>,
        Some \<lparr>url = ''http://localhost:8000/chat'', http_method = ''POST'',
              headers = [(''Content-Type'', ''application/json'')],
              body = Query ''I forgot my login credentials. what do i do?'' True\<rparr>)"
  by (simp add: ChatPage_sendMessage_start_def ChatPage_initial_def trim_def isWhiteSpace_def
      chatRequest_request_def or_undefined_def truthy_def useToken_initial_def)

subsection \<open>C2: a chat answer with status 401\<close>

text \<open>
  C2, as amended. In the chat-ui component, when the answer to a chat request has status
  401, the stored token is cleared (\<open>getToken\<close> finds none afterwards), the router is
  sent to the entry view \<open>"/"\<close> and the log is left as it was, so that after a whole
  submit it ends with the user message and holds no assistant message. The chat page
  built on lib/api treats 401 as any other failed request: it records the error and
  appends no assistant message, and it neither touches the storage or its token nor
  calls the router.
\<close>

theorem chat_401:
  "(status res = 401 \<longrightarrow>
      getToken (win (snd (ChatUI_sendMessage_resume aid (Responds res) (s, b)))) = None
      \<and> pushed (snd (ChatUI_sendMessage_resume aid (Responds res) (s, b))) = pushed b @ [''/'']
      \<and> ui_messages (fst (ChatUI_sendMessage_resume aid (Responds res) (s, b))) = ui_messages s)
   \<and> (status res = 401 \<and> trim (ui_input s) \<noteq> [] \<and> truthy (ui_token s) \<longrightarrow>
      getToken (win (snd (ChatUI_sendMessage (\<lambda>req. Responds res) uid aid (s, b)))) = None
      \<and> pushed (snd (ChatUI_sendMessage (\<lambda>req. Responds res) uid aid (s, b))) = pushed b @ [''/'']
      \<and> ui_messages (fst (ChatUI_sendMessage (\<lambda>req. Responds res) uid aid (s, b)))
          = ui_messages s @ [User uid (trim (ui_input s))])
   \<and> (status r = 401 \<longrightarrow>
      snd (ChatPage_sendMessage_resume (Responds r) (p, b)) = b
      \<and> pg_token (fst (ChatPage_sendMessage_resume (Responds r) (p, b))) = pg_token p
      \<and> pg_messages (fst (ChatPage_sendMessage_resume (Responds r) (p, b))) = pg_messages p
      \<and> truthy (pg_error (fst (ChatPage_sendMessage_resume (Responds r) (p, b)))))"
proof (intro conjI impI)
  assume h: "status res = 401"
  show "getToken (win (snd (ChatUI_sendMessage_resume aid (Responds res) (s, b)))) = None"
    by (simp add: ChatUI_resume_401 [OF h] getToken_clearToken)
  show "pushed (snd (ChatUI_sendMessage_resume aid (Responds res) (s, b))) = pushed b @ [''/'']"
    by (simp add: ChatUI_resume_401 [OF h])
  show "ui_messages (fst (ChatUI_sendMessage_resume aid (Responds res) (s, b))) = ui_messages s"
    by (simp add: ChatUI_resume_401 [OF h])
next
  assume h: "status res = 401 \<and> trim (ui_input s) \<noteq> [] \<and> truthy (ui_token s)"
  then obtain req where st: "ChatUI_sendMessage_start uid s =
     (s\<lparr>ui_error := None, ui_messages := ui_messages s @ [User uid (trim (ui_input s))],
        ui_input := [], ui_sending := True\<rparr>, Some req)"
    using ChatUI_start_accepts [of s uid] by blast
  from h have r: "status res = 401" by simp
  show "getToken (win (snd (ChatUI_sendMessage (\<lambda>req. Responds res) uid aid (s, b)))) = None"
    by (simp add: ChatUI_sendMessage_def st ChatUI_resume_401 [OF r] getToken_clearToken)
  show "pushed (snd (ChatUI_sendMessage (\<lambda>req. Responds res) uid aid (s, b))) = pushed b @ [''/'']"
    by (simp add: ChatUI_sendMessage_def st ChatUI_resume_401 [OF r])
  show "ui_messages (fst (ChatUI_sendMessage (\<lambda>req. Responds res) uid aid (s, b)))
          = ui_messages s @ [User uid (trim (ui_input s))]"
    by (simp add: ChatUI_sendMessage_def st ChatUI_resume_401 [OF r])
next
  assume h: "status r = 401"
  then have nok: "\<not> ok r" by (simp add: ok_def)
  note f = ChatPage_resume_fails [OF chatRequest_result_not_ok [OF nok]]
  show "snd (ChatPage_sendMessage_resume (Responds r) (p, b)) = b"
    by (simp add: f)
  show "pg_token (fst (ChatPage_sendMessage_resume (Responds r) (p, b))) = pg_token p"
    by (simp add: f)
  show "pg_messages (fst (ChatPage_sendMessage_resume (Responds r) (p, b))) = pg_messages p"
    by (simp add: f)
  show "truthy (pg_error (fst (ChatPage_sendMessage_resume (Responds r) (p, b))))"
    by (simp add: f truthy_def or_else_def)
qed

text \<open>
  The theorem at a submit of \<open>hello\<close> with the token \<open>tok123\<close> stored and held, answered
  with 401, in the chat-ui component and in the chat page.
\<close>

theorem chat_401_witness:
  "getToken (win (snd (ChatUI_sendMessage
      (\<lambda>req. Responds \<lparr>status = 401, statusText = ''Unauthorized'', body_text = Some [],
                        json = Null\<rparr>)
      ''u1'' ''a1''
      (\<lparr>ui_token = Some ''tok123'', ui_messages = [], ui_input = ''hello'', ui_sending = False,
         ui_error = None\<rparr>,
       \<lparr>win = Some \<lparr>items = [''blp_token'' \<mapsto> ''tok123''], blocked = False, full = False\<rparr>,
         pushed = []\<rparr>)))) = None
   \<and> pushed (snd (ChatUI_sendMessage
      (\<lambda>req. Responds \<lparr>status = 401, statusText = ''Unauthorized'', body_text = Some [],
                        json = Null\<rparr>)
      ''u1'' ''a1''
      (\<lparr>ui_token = Some ''tok123'', ui_messages = [], ui_input = ''hello'', ui_sending = False,
         ui_error = None\<rparr>,
       \<lparr>win = Some \<lparr>items = [''blp_token'' \<mapsto> ''tok123''], blocked = False, full = False\<rparr>,
         pushed = []\<rparr>))) = [''/'']
   \<and> ui_messages (fst (ChatUI_sendMessage
      (\<lambda>req. Responds \<lparr>status = 401, statusText = ''Unauthorized'', body_text = Some [],
                        json = Null\<rparr>)
      ''u1'' ''a1''
      (\<lparr>ui_token = Some ''tok123'', ui_messages = [], ui_input = ''hello'', ui_sending = False,
         ui_error = None\<rparr>,
       \<lparr>win = Some \<lparr>items = [''blp_token'' \<mapsto> ''tok123''], blocked = False, full = False\<rparr>,
         pushed = []\<rparr>))) = [User ''u1'' ''hello'']
   \<and> pg_token (fst (ChatPage_sendMessage_resume
      (Responds \<lparr>status = 401, statusText = ''Unauthorized'', body_text = Some [], json = Null\<rparr>)
      (\<lparr>pg_token = Some ''tok123'',
         pg_messages = [\<lparr>role = user, content = ''hello'', tools = None\<rparr>],
         pg_input = ''hello'', pg_loading = True, pg_error = None\<rparr>,
       \<lparr>win = Some \<lparr>items = [''blp_token'' \<mapsto> ''tok123''], blocked = False, full = False\<rparr>,
         pushed = []\<rparr>))) = Some ''tok123''"
  using chat_401
    [where res = "\<lparr>status = 401, statusText = ''Unauthorized'', body_text = Some [],
                   json = Null\<rparr>"
     and r = "\<lparr>status = 401, statusText = ''Unauthorized'', body_text = Some [], json = Null\<rparr>"
     and s = "\<lparr>ui_token = Some ''tok123'', ui_messages = [], ui_input = ''hello'',
               ui_sending = False, ui_error = None\<rparr>"
     and p = "\<lparr>pg_token = Some ''tok123'',
               pg_messages = [\<lparr>role = user, content = ''hello'', tools = None\<rparr>],
               pg_input = ''hello'', pg_loading = True, pg_error = None\<rparr>"
     and b = "\<lparr>win = Some \<lparr>items = [''blp_token'' \<mapsto> ''tok123''], blocked = False,
                            full = False\<rparr>,
               pushed = []\<rparr>"
     and uid = "''u1''" and aid = "''a1''"]
  by (simp add: trim_def isWhiteSpace_def truthy_def)

text \<open>
  C2 as stated fails in the chat page: with the token \<open>tok123\<close> stored under the hook's
  key and held by the page, a submit of \<open>hello\<close> answered with 401 leaves the storage
  and the page's token as they were and pushes no route; the page shows the error.
\<close>

theorem chat_401_counterexample:
  "ChatPage_sendMessage ''http://localhost:8000''
     (\<lambda>req. Responds \<lparr>status = 401, statusText = ''Unauthorized'', body_text = Some [],
                       json = Null\<rparr>)
     (\<lparr>pg_token = Some ''tok123'', pg_messages = [], pg_input = ''hello'', pg_loading = False,
        pg_error = None\<rparr>,
      \<lparr>win = Some \<lparr>items = [''access_token'' \<mapsto> ''tok123''], blocked = False, full = False\<rparr>,
        pushed = []\<rparr>)
   = (\<lparr>pg_token = Some ''tok123'',
        pg_messages = [\<lparr>role = user, content = ''hello'', tools = None\<rparr>],
        pg_input = ''hello'', pg_loading = False,
        pg_error = Some ''Chat failed (401): Unauthorized''\<rparr>,
      \<lparr>win = Some \<lparr>items = [''access_token'' \<mapsto> ''tok123''], blocked = False, full = False\<rparr>,
        pushed = []\<rparr>)
   \<and> useToken_mounted \<lparr>items = [''access_token'' \<mapsto> ''tok123''], blocked = False, full = False\<rparr>
       = Some ''tok123''"
  by (simp add: ChatPage_sendMessage_def ChatPage_sendMessage_start_def
      ChatPage_sendMessage_resume_def chatRequest_result_def ok_def trim_def isWhiteSpace_def
      or_else_def or_str_def decimal.simps useToken_mounted_def useToken_effect_def
      useToken_initial_def getItem_def useToken_TOKEN_KEY_def truthy_def)

subsection \<open>C3: the token stores\<close>

text \<open>
  C3, as amended. A token store keeps the token as a single string under its one fixed
  storage key, and the round trip holds through one store when the storage takes the
  write. In lib/auth-client, \<open>setToken(t)\<close> then sets that key and nothing else, and
  \<open>getToken()\<close> returns \<open>t\<close>; after \<open>clearToken()\<close>, \<open>getToken()\<close> returns
  nothing. In lib/use-token, \<open>setToken(t)\<close> makes \<open>t\<close> the token of the calling hook
  and, when the storage takes the write, sets that key and nothing else, and a component
  that mounts afterwards reads \<open>t\<close> if \<open>t\<close> is not empty; after \<open>clearToken()\<close> the
  calling hook and a component that mounts afterwards have no token.
\<close>

theorem token_store_round_trip:
  "(\<not> blocked st \<and> \<not> full st \<longrightarrow>
      setToken t (Some st) = Some (st\<lparr>items := (items st)(TOKEN_KEY \<mapsto> t)\<rparr>)
      \<and> getToken (setToken t (Some st)) = Some t)
   \<and> getToken (clearToken w) = None
   \<and> fst (useToken_setToken t (tok, st)) = Some t
   \<and> (\<not> blocked st \<and> \<not> full st \<longrightarrow>
      snd (useToken_setToken t (tok, st)) = st\<lparr>items := (items st)(useToken_TOKEN_KEY \<mapsto> t)\<rparr>)
   \<and> (\<not> blocked st \<and> \<not> full st \<and> t \<noteq> [] \<longrightarrow>
      useToken_mounted (snd (useToken_setToken t (tok, st))) = Some t)
   \<and> fst (useToken_clearToken (tok, st)) = None
   \<and> useToken_mounted (snd (useToken_clearToken (tok, st))) = None"
proof (intro conjI impI)
  assume h: "\<not> blocked st \<and> \<not> full st"
  then show "setToken t (Some st) = Some (st\<lparr>items := (items st)(TOKEN_KEY \<mapsto> t)\<rparr>)"
    by (simp add: setToken_def setItem_def)
  from h show "getToken (setToken t (Some st)) = Some t"
    by (simp add: getToken_def setToken_def getItem_def setItem_def)
  from h show "snd (useToken_setToken t (tok, st))
      = st\<lparr>items := (items st)(useToken_TOKEN_KEY \<mapsto> t)\<rparr>"
    by (simp add: useToken_setToken_def setItem_def)
next
  assume "\<not> blocked st \<and> \<not> full st \<and> t \<noteq> []"
  then show "useToken_mounted (snd (useToken_setToken t (tok, st))) = Some t"
    by (simp add: useToken_mounted_def useToken_effect_def useToken_initial_def
        useToken_setToken_def getItem_def setItem_def truthy_def)
next
  show "getToken (clearToken w) = None" by (rule getToken_clearToken)
  show "fst (useToken_setToken t (tok, st)) = Some t"
    by (simp add: useToken_setToken_def)
  show "fst (useToken_clearToken (tok, st)) = None"
    by (simp add: useToken_clearToken_def)
  show "useToken_mounted (snd (useToken_clearToken (tok, st))) = None"
    by (simp add: useToken_mounted_def useToken_effect_def useToken_initial_def
        useToken_clearToken_def getItem_def removeItem_def truthy_def)
qed

text \<open>The theorem at the token \<open>tok123\<close> and an empty storage that takes writes.\<close>

theorem token_store_round_trip_witness:
  "getToken (setToken ''tok123'' (Some \<lparr>items = Map.empty, blocked = False, full = False\<rparr>))
     = Some ''tok123''
   \<and> useToken_mounted (snd (useToken_setToken ''tok123''
       (None, \<lparr>items = Map.empty, blocked = False, full = False\<rparr>))) = Some ''tok123''
   \<and> snd (useToken_setToken ''tok123'' (None, \<lparr>items = Map.empty, blocked = False, full = False\<rparr>))
     = \<lparr>items = [''access_token'' \<mapsto> ''tok123''], blocked = False, full = False\<rparr>"
  using token_store_round_trip
    [where st = "\<lparr>items = Map.empty, blocked = False, full = False\<rparr>" and t = "''tok123''"
     and tok = None and w = None]
  by (auto simp: useToken_TOKEN_KEY_def)

text \<open>
  C3 as stated fails. Through one store: when the storage refuses the write, which
  \<open>setToken\<close> swallows, \<open>getToken\<close> returns nothing; and the empty string written
  through the hook of lib/use-token is no token for a component that mounts afterwards.
  From one store to the other: the token \<open>tok123\<close> written by \<open>setToken\<close> of
  lib/auth-client is not what a component mounting with the hook of lib/use-token
  reads, and written by the hook's \<open>setToken\<close> it is not what \<open>getToken\<close> of
  lib/auth-client returns, so that the chat-ui component, on mounting, leaves for the
  entry view.
\<close>

theorem token_store_round_trip_counterexample:
  "getToken (setToken ''tok123'' (Some \<lparr>items = Map.empty, blocked = False, full = True\<rparr>))
     = None
   \<and> useToken_mounted (snd (useToken_setToken []
       (None, \<lparr>items = Map.empty, blocked = False, full = False\<rparr>))) = None
   \<and> setToken ''tok123'' (Some \<lparr>items = Map.empty, blocked = False, full = False\<rparr>)
     = Some \<lparr>items = [''blp_token'' \<mapsto> ''tok123''], blocked = False, full = False\<rparr>
   \<and> useToken_mounted \<lparr>items = [''blp_token'' \<mapsto> ''tok123''], blocked = False, full = False\<rparr>
     = None
   \<and> snd (useToken_setToken ''tok123'' (None, \<lparr>items = Map.empty, blocked = False, full = False\<rparr>))
     = \<lparr>items = [''access_token'' \<mapsto> ''tok123''], blocked = False, full = False\<rparr>
   \<and> getToken (Some \<lparr>items = [''access_token'' \<mapsto> ''tok123''], blocked = False, full = False\<rparr>)
     = None
   \<and> ChatUI_mount (ChatUI_initial,
        \<lparr>win = Some \<lparr>items = [''access_token'' \<mapsto> ''tok123''], blocked = False, full = False\<rparr>,
          pushed = []\<rparr>)
     = (ChatUI_initial,
        \<lparr>win = Some \<lparr>items = [''access_token'' \<mapsto> ''tok123''], blocked = False, full = False\<rparr>,
          pushed = [''/'']\<rparr>)"
  by (simp add: setToken_def setItem_def useToken_mounted_def useToken_effect_def
      useToken_initial_def useToken_setToken_def getToken_def getItem_def truthy_def
      TOKEN_KEY_def useToken_TOKEN_KEY_def ChatUI_mount_def)

subsection \<open>C4: a submit appends one user message, a blank one does nothing\<close>

text \<open>
  C4. When the input is not blank after trimming (and, in the chat-ui component, a token
  is held), \<open>sendMessage\<close> appends exactly one user message before it hands the request
  to \<open>fetch\<close>, and whatever the network then does the log is the old log, that user
  message and at most one assistant message after it. When the input is blank after
  trimming, \<open>sendMessage\<close> changes nothing and issues no request.
\<close>

theorem submit_appends_user_message:
  "(trim (ui_input s) \<noteq> [] \<and> truthy (ui_token s) \<longrightarrow>
      ui_messages (fst (ChatUI_sendMessage_start uid s))
        = ui_messages s @ [User uid (trim (ui_input s))]
      \<and> snd (ChatUI_sendMessage_start uid s) \<noteq> None
      \<and> (ui_messages (fst (ChatUI_sendMessage net uid aid (s, b)))
            = ui_messages s @ [User uid (trim (ui_input s))]
          \<or> (\<exists>c ts. ui_messages (fst (ChatUI_sendMessage net uid aid (s, b)))
            = ui_messages s @ [User uid (trim (ui_input s)), Assistant aid c ts])))
   \<and> (trim (ui_input s) = [] \<longrightarrow>
      ChatUI_sendMessage_start uid s = (s, None)
      \<and> ChatUI_sendMessage net uid aid (s, b) = (s, b))
   \<and> (trim (pg_input p) \<noteq> [] \<longrightarrow>
      pg_messages (fst (ChatPage_sendMessage_start base p))
        = pg_messages p @ [\<lparr>role = user, content = pg_input p, tools = None\<rparr>]
      \<and> snd (ChatPage_sendMessage_start base p) \<noteq> None
      \<and> (pg_messages (fst (ChatPage_sendMessage base pnet (p, b)))
            = pg_messages p @ [\<lparr>role = user, content = pg_input p, tools = None\<rparr>]
          \<or> (\<exists>c ts. pg_messages (fst (ChatPage_sendMessage base pnet (p, b)))
            = pg_messages p @ [\<lparr>role = user, content = pg_input p, tools = None\<rparr>,
                               \<lparr>role = assistant, content = c, tools = ts\<rparr>])))
   \<and> (trim (pg_input p) = [] \<longrightarrow>
      ChatPage_sendMessage_start base p = (p, None)
      \<and> ChatPage_sendMessage base pnet (p, b) = (p, b))"
proof (intro conjI impI)
  assume h: "trim (ui_input s) \<noteq> [] \<and> truthy (ui_token s)"
  then obtain req where st: "ChatUI_sendMessage_start uid s =
     (s\<lparr>ui_error := None, ui_messages := ui_messages s @ [User uid (trim (ui_input s))],
        ui_input := [], ui_sending := True\<rparr>, Some req)"
    using ChatUI_start_accepts [of s uid] by blast
  show "ui_messages (fst (ChatUI_sendMessage_start uid s))
        = ui_messages s @ [User uid (trim (ui_input s))]"
    by (simp add: st)
  show "snd (ChatUI_sendMessage_start uid s) \<noteq> None"
    by (simp add: st)
  show "ui_messages (fst (ChatUI_sendMessage net uid aid (s, b)))
            = ui_messages s @ [User uid (trim (ui_input s))]
          \<or> (\<exists>c ts. ui_messages (fst (ChatUI_sendMessage net uid aid (s, b)))
            = ui_messages s @ [User uid (trim (ui_input s)), Assistant aid c ts])"
  proof (cases "net req")
    case (Throws e)
    then show ?thesis
      by (simp add: ChatUI_sendMessage_def st ChatUI_resume_throws)
  next
    case (Responds res)
    show ?thesis
    proof (cases "ok res")
      case True
      then show ?thesis
        by (simp add: ChatUI_sendMessage_def st Responds ChatUI_resume_ok)
    next
      case False
      show ?thesis
      proof (cases "status res = 401")
        case True
        then show ?thesis
          by (simp add: ChatUI_sendMessage_def st Responds ChatUI_resume_401)
      next
        case n: False
        show ?thesis
          by (simp add: ChatUI_sendMessage_def st Responds ChatUI_resume_not_ok [OF n False])
      qed
    qed
  qed
next
  assume h: "trim (ui_input s) = []"
  then have st: "ChatUI_sendMessage_start uid s = (s, None)"
    by (simp add: ChatUI_start_rejects)
  show "ChatUI_sendMessage_start uid s = (s, None)" by (rule st)
  show "ChatUI_sendMessage net uid aid (s, b) = (s, b)"
    by (simp add: ChatUI_sendMessage_def st)
next
  assume h: "trim (pg_input p) \<noteq> []"
  note st = ChatPage_start_accepts [OF h, of base]
  show "pg_messages (fst (ChatPage_sendMessage_start base p))
        = pg_messages p @ [\<lparr>role = user, content = pg_input p, tools = None\<rparr>]"
    by (simp add: st)
  show "snd (ChatPage_sendMessage_start base p) \<noteq> None"
    by (simp add: st)
  show "pg_messages (fst (ChatPage_sendMessage base pnet (p, b)))
            = pg_messages p @ [\<lparr>role = user, content = pg_input p, tools = None\<rparr>]
          \<or> (\<exists>c ts. pg_messages (fst (ChatPage_sendMessage base pnet (p, b)))
            = pg_messages p @ [\<lparr>role = user, content = pg_input p, tools = None\<rparr>,
                               \<lparr>role = assistant, content = c, tools = ts\<rparr>])"
  proof (cases "chatRequest_result
      (pnet (chatRequest_request base (pg_input p) (or_undefined (pg_token p))))")
    case (Inl err)
    then show ?thesis
      by (simp add: ChatPage_sendMessage_def st ChatPage_resume_fails)
  next
    case (Inr res)
    then show ?thesis
      by (simp add: ChatPage_sendMessage_def st ChatPage_resume_succeeds)
  qed
next
  assume h: "trim (pg_input p) = []"
  show "ChatPage_sendMessage_start base p = (p, None)"
    by (simp add: ChatPage_start_rejects h)
  show "ChatPage_sendMessage base pnet (p, b) = (p, b)"
    by (simp add: ChatPage_sendMessage_def ChatPage_start_rejects h)
qed

text \<open>
  The theorem at an input with blanks around \<open>hello\<close> and at an input of blanks only,
  with a network that is down.
\<close>

theorem submit_appends_user_message_witness:
  "ui_messages (fst (ChatUI_sendMessage_start ''u1''
      \<lparr>ui_token = Some ''tok123'', ui_messages = [], ui_input = ''  hello '', ui_sending = False,
        ui_error = None\<rparr>)) = [] @ [User ''u1'' (trim ''  hello '')]
   \<and> trim ''  hello '' = ''hello''
   \<and> ChatUI_sendMessage_start ''u1''
      \<lparr>ui_token = Some ''tok123'', ui_messages = [], ui_input = ''   '', ui_sending = False,
        ui_error = None\<rparr>
     = (\<lparr>ui_token = Some ''tok123'', ui_messages = [], ui_input = ''   '', ui_sending = False,
        ui_error = None\<rparr>, None)
   \<and> pg_messages (fst (ChatPage_sendMessage_start ''http://localhost:8000''
      \<lparr>pg_token = None, pg_messages = [], pg_input = ''  hello '', pg_loading = False,
        pg_error = None\<rparr>)) = [] @ [\<lparr>role = user, content = ''  hello '', tools = None\<rparr>]
   \<and> ChatPage_sendMessage_start ''http://localhost:8000''
      \<lparr>pg_token = None, pg_messages = [], pg_input = ''   '', pg_loading = False,
        pg_error = None\<rparr>
     = (\<lparr>pg_token = None, pg_messages = [], pg_input = ''   '', pg_loading = False,
        pg_error = None\<rparr>, None)"
  using submit_appends_user_message
    [where s = "\<lparr>ui_token = Some ''tok123'', ui_messages = [], ui_input = ''  hello '',
               ui_sending = False, ui_error = None\<rparr>"
     and p = "\<lparr>pg_token = None, pg_messages = [], pg_input = ''  hello '', pg_loading = False,
               pg_error = None\<rparr>"
     and uid = "''u1''" and aid = "''a1''" and base = "''http://localhost:8000''"
     and net = "\<lambda>req. Throws (Thrown (Some ''Failed to fetch''))"
     and pnet = "\<lambda>req. Throws (Thrown (Some ''Failed to fetch''))"
     and b = "\<lparr>win = None, pushed = []\<rparr>"]
    submit_appends_user_message
    [where s = "\<lparr>ui_token = Some ''tok123'', ui_messages = [], ui_input = ''   '',
               ui_sending = False, ui_error = None\<rparr>"
     and p = "\<lparr>pg_token = None, pg_messages = [], pg_input = ''   '', pg_loading = False,
               pg_error = None\<rparr>"
     and uid = "''u1''" and aid = "''a1''" and base = "''http://localhost:8000''"
     and net = "\<lambda>req. Throws (Thrown (Some ''Failed to fetch''))"
     and pnet = "\<lambda>req. Throws (Thrown (Some ''Failed to fetch''))"
     and b = "\<lparr>win = None, pushed = []\<rparr>"]
  by (simp add: trim_def isWhiteSpace_def truthy_def)

subsection \<open>C5: failed and successful sends\<close>

text \<open>
  C5. When a chat send fails, by a thrown \<open>fetch\<close> or an answer whose status is not
  2xx, no assistant message is appended and nothing is removed, so the log of the whole
  submit ends with the user message, and a non-empty error message is recorded. An
  answer with a 2xx status appends exactly one assistant message in the chat-ui
  component; in the chat page any settled request appends one assistant message or none.
\<close>

theorem failed_send_keeps_user_message:
  "((r = Throws e \<or> (r = Responds res \<and> \<not> ok res)) \<longrightarrow>
      ui_messages (fst (ChatUI_sendMessage_resume aid r (s, b))) = ui_messages s
      \<and> truthy (ui_error (fst (ChatUI_sendMessage_resume aid r (s, b)))))
   \<and> ((r = Throws e \<or> (r = Responds res \<and> \<not> ok res))
        \<and> trim (ui_input s) \<noteq> [] \<and> truthy (ui_token s) \<longrightarrow>
      ui_messages (fst (ChatUI_sendMessage (\<lambda>req. r) uid aid (s, b)))
        = ui_messages s @ [User uid (trim (ui_input s))]
      \<and> truthy (ui_error (fst (ChatUI_sendMessage (\<lambda>req. r) uid aid (s, b)))))
   \<and> (ok res \<longrightarrow>
      ui_messages (fst (ChatUI_sendMessage_resume aid (Responds res) (s, b)))
        = ui_messages s @
            [Assistant aid
               (or_else (Option.bind (ChatUI_data (json res)) answer) ''(no answer returned)'')
               (Some (ChatUI_tools (ChatUI_data (json res))))])
   \<and> ((q = Throws e \<or> (q = Responds qres \<and> \<not> ok qres)) \<longrightarrow>
      pg_messages (fst (ChatPage_sendMessage_resume q (p, b))) = pg_messages p
      \<and> truthy (pg_error (fst (ChatPage_sendMessage_resume q (p, b)))))
   \<and> ((q = Throws e \<or> (q = Responds qres \<and> \<not> ok qres)) \<and> trim (pg_input p) \<noteq> [] \<longrightarrow>
      pg_messages (fst (ChatPage_sendMessage base (\<lambda>req. q) (p, b)))
        = pg_messages p @ [\<lparr>role = user, content = pg_input p, tools = None\<rparr>]
      \<and> truthy (pg_error (fst (ChatPage_sendMessage base (\<lambda>req. q) (p, b)))))
   \<and> (pg_messages (fst (ChatPage_sendMessage_resume q (p, b))) = pg_messages p
      \<or> (\<exists>c ts. pg_messages (fst (ChatPage_sendMessage_resume q (p, b)))
            = pg_messages p @ [\<lparr>role = assistant, content = c, tools = ts\<rparr>]))"
proof (intro conjI impI)
  assume h: "r = Throws e \<or> (r = Responds res \<and> \<not> ok res)"
  show "ui_messages (fst (ChatUI_sendMessage_resume aid r (s, b))) = ui_messages s"
    using ChatUI_resume_fails [OF h] by blast
  show "truthy (ui_error (fst (ChatUI_sendMessage_resume aid r (s, b))))"
    using ChatUI_resume_fails [OF h] by blast
next
  assume h: "(r = Throws e \<or> (r = Responds res \<and> \<not> ok res))
        \<and> trim (ui_input s) \<noteq> [] \<and> truthy (ui_token s)"
  then obtain req where st: "ChatUI_sendMessage_start uid s =
     (s\<lparr>ui_error := None, ui_messages := ui_messages s @ [User uid (trim (ui_input s))],
        ui_input := [], ui_sending := True\<rparr>, Some req)"
    using ChatUI_start_accepts [of s uid] by blast
  from h have f: "r = Throws e \<or> (r = Responds res \<and> \<not> ok res)" by blast
  show "ui_messages (fst (ChatUI_sendMessage (\<lambda>req. r) uid aid (s, b)))
        = ui_messages s @ [User uid (trim (ui_input s))]"
    using ChatUI_resume_fails [OF f, of aid _ b] by (simp add: ChatUI_sendMessage_def st)
  show "truthy (ui_error (fst (ChatUI_sendMessage (\<lambda>req. r) uid aid (s, b))))"
    using ChatUI_resume_fails [OF f, of aid _ b] by (simp add: ChatUI_sendMessage_def st)
next
  assume "ok res"
  then show "ui_messages (fst (ChatUI_sendMessage_resume aid (Responds res) (s, b)))
        = ui_messages s @
            [Assistant aid
               (or_else (Option.bind (ChatUI_data (json res)) answer) ''(no answer returned)'')
               (Some (ChatUI_tools (ChatUI_data (json res))))]"
    by (simp add: ChatUI_resume_ok)
next
  assume h: "q = Throws e \<or> (q = Responds qres \<and> \<not> ok qres)"
  show "pg_messages (fst (ChatPage_sendMessage_resume q (p, b))) = pg_messages p"
    using ChatPage_resume_failure [OF h] by blast
  show "truthy (pg_error (fst (ChatPage_sendMessage_resume q (p, b))))"
    using ChatPage_resume_failure [OF h] by blast
next
  assume h: "(q = Throws e \<or> (q = Responds qres \<and> \<not> ok qres)) \<and> trim (pg_input p) \<noteq> []"
  then have f: "q = Throws e \<or> (q = Responds qres \<and> \<not> ok qres)"
    and t: "trim (pg_input p) \<noteq> []" by blast+
  note st = ChatPage_start_accepts [OF t, of base]
  show "pg_messages (fst (ChatPage_sendMessage base (\<lambda>req. q) (p, b)))
        = pg_messages p @ [\<lparr>role = user, content = pg_input p, tools = None\<rparr>]"
    using ChatPage_resume_failure [OF f, of _ b] by (simp add: ChatPage_sendMessage_def st)
  show "truthy (pg_error (fst (ChatPage_sendMessage base (\<lambda>req. q) (p, b))))"
    using ChatPage_resume_failure [OF f, of _ b] by (simp add: ChatPage_sendMessage_def st)
next
  show "pg_messages (fst (ChatPage_sendMessage_resume q (p, b))) = pg_messages p
      \<or> (\<exists>c ts. pg_messages (fst (ChatPage_sendMessage_resume q (p, b)))
            = pg_messages p @ [\<lparr>role = assistant, content = c, tools = ts\<rparr>])"
    by (cases "chatRequest_result q")
      (simp_all add: ChatPage_resume_fails ChatPage_resume_succeeds)
qed

text \<open>
  The theorem at a submit of \<open>hello\<close> answered with status 500 in the chat-ui component,
  at one for which \<open>fetch\<close> throws in the chat page, and at an answer with status 200,
  the answer \<open>Reset via settings.\<close> and one step with the tool \<open>search_documents\<close>.
\<close>

theorem failed_send_keeps_user_message_witness:
  "ui_messages (fst (ChatUI_sendMessage
      (\<lambda>req. Responds \<lparr>status = 500, statusText = ''Internal Server Error'',
                        body_text = Some [], json = Invalid (Thrown None)\<rparr>)
      ''u1'' ''a1''
      (\<lparr>ui_token = Some ''tok123'', ui_messages = [], ui_input = ''hello'', ui_sending = False,
         ui_error = None\<rparr>, \<lparr>win = None, pushed = []\<rparr>)))
     = [] @ [User ''u1'' (trim ''hello'')]
   \<and> truthy (ui_error (fst (ChatUI_sendMessage
      (\<lambda>req. Responds \<lparr>status = 500, statusText = ''Internal Server Error'',
                        body_text = Some [], json = Invalid (Thrown None)\<rparr>)
      ''u1'' ''a1''
      (\<lparr>ui_token = Some ''tok123'', ui_messages = [], ui_input = ''hello'', ui_sending = False,
         ui_error = None\<rparr>, \<lparr>win = None, pushed = []\<rparr>))))
   \<and> pg_messages (fst (ChatPage_sendMessage ''http://localhost:8000''
      (\<lambda>req. Throws (Thrown (Some ''Failed to fetch'')))
      (\<lparr>pg_token = None, pg_messages = [], pg_input = ''hello'', pg_loading = False,
         pg_error = None\<rparr>, \<lparr>win = None, pushed = []\<rparr>)))
     = [] @ [\<lparr>role = user, content = ''hello'', tools = None\<rparr>]
   \<and> truthy (pg_error (fst (ChatPage_sendMessage ''http://localhost:8000''
      (\<lambda>req. Throws (Thrown (Some ''Failed to fetch'')))
      (\<lparr>pg_token = None, pg_messages = [], pg_input = ''hello'', pg_loading = False,
         pg_error = None\<rparr>, \<lparr>win = None, pushed = []\<rparr>))))
   \<and> ui_messages (fst (ChatUI_sendMessage_resume ''a1''
      (Responds \<lparr>status = 200, statusText = ''OK'', body_text = None,
         json = Object \<lparr>answer = Some ''Reset via settings.'', user_id = None, query = None,
           reasoning_steps = Some [Some \<lparr>tool = Some ''search_documents'', step_input = None,
                                         step_output = None\<rparr>],
           success = None, error = None, detail = None\<rparr>\<rparr>)
      (\<lparr>ui_token = Some ''tok123'', ui_messages = [User ''u1'' ''hello''], ui_input = [],
         ui_sending = True, ui_error = None\<rparr>, \<lparr>win = None, pushed = []\<rparr>)))
     = [User ''u1'' ''hello'',
        Assistant ''a1'' ''Reset via settings.'' (Some [''search_documents''])]"
proof -
  have t: "truthy (Some ''tok123'')" by (simp add: truthy_def)
  have g: "ui_messages (fst (ChatUI_sendMessage_resume ''a1''
      (Responds \<lparr>status = 200, statusText = ''OK'', body_text = None,
         json = Object \<lparr>answer = Some ''Reset via settings.'', user_id = None, query = None,
           reasoning_steps = Some [Some \<lparr>tool = Some ''search_documents'', step_input = None,
                                         step_output = None\<rparr>],
           success = None, error = None, detail = None\<rparr>\<rparr>)
      (\<lparr>ui_token = Some ''tok123'', ui_messages = [User ''u1'' ''hello''], ui_input = [],
         ui_sending = True, ui_error = None\<rparr>, \<lparr>win = None, pushed = []\<rparr>)))
     = [User ''u1'' ''hello'',
        Assistant ''a1'' ''Reset via settings.'' (Some [''search_documents''])]"
    using failed_send_keeps_user_message
      [where res = "\<lparr>status = 200, statusText = ''OK'', body_text = None,
         json = Object \<lparr>answer = Some ''Reset via settings.'', user_id = None, query = None,
           reasoning_steps = Some [Some \<lparr>tool = Some ''search_documents'', step_input = None,
                                         step_output = None\<rparr>],
           success = None, error = None, detail = None\<rparr>\<rparr>"
       and s = "\<lparr>ui_token = Some ''tok123'', ui_messages = [User ''u1'' ''hello''],
                 ui_input = [], ui_sending = True, ui_error = None\<rparr>"
       and b = "\<lparr>win = None, pushed = []\<rparr>" and aid = "''a1''"
       and r = "Throws (Thrown None)" and q = "Throws (Thrown None)" and e = "Thrown None"
       and qres = "\<lparr>status = 500, statusText = [], body_text = None, json = Null\<rparr>"
       and p = "\<lparr>pg_token = None, pg_messages = [], pg_input = ''hello'', pg_loading = False,
                 pg_error = None\<rparr>"
       and uid = "''u1''" and base = "''http://localhost:8000''"]
    by (simp add: ok_def ChatUI_data_def ChatUI_tools_def filter_Boolean_def Array_from_Set_def
        Set_add_def or_else_def)
  show ?thesis
  using t g failed_send_keeps_user_message
    [where r = "Responds \<lparr>status = 500, statusText = ''Internal Server Error'',
                          body_text = Some [], json = Invalid (Thrown None)\<rparr>"
     and res = "\<lparr>status = 500, statusText = ''Internal Server Error'',
                 body_text = Some [], json = Invalid (Thrown None)\<rparr>"
     and q = "Throws (Thrown (Some ''Failed to fetch''))"
     and e = "Thrown (Some ''Failed to fetch'')"
     and qres = "\<lparr>status = 500, statusText = [], body_text = None, json = Null\<rparr>"
     and s = "\<lparr>ui_token = Some ''tok123'', ui_messages = [], ui_input = ''hello'',
               ui_sending = False, ui_error = None\<rparr>"
     and p = "\<lparr>pg_token = None, pg_messages = [], pg_input = ''hello'', pg_loading = False,
               pg_error = None\<rparr>"
     and b = "\<lparr>win = None, pushed = []\<rparr>"
     and uid = "''u1''" and aid = "''a1''" and base = "''http://localhost:8000''"]
  by (simp add: trim_def isWhiteSpace_def ok_def)
qed

subsection \<open>C6: the tool names shown\<close>

text \<open>
  C6. For every sequence of reasoning steps in a chat answer with a 2xx status, the
  names shown under the assistant message that the controller appends are the tool names
  of the steps with duplicates removed, each standing where it was first seen; the
  messages before it are shown as before. A step without a name, or with the empty
  string for one, names no tool: for every sequence \<open>ns\<close> of names given as the
  \<open>tool\<close> of the steps, the names taken from the steps are the non-empty ones of
  \<open>ns\<close> in their order. \<open>Array.from(new Set(xs))\<close> is this removal of duplicates: it
  has no duplicates and the same members as \<open>xs\<close>.
\<close>

theorem tools_first_seen:
  "(ok res \<and> json res = Object d \<and> reasoning_steps d = Some steps \<longrightarrow>
      map ChatUI_badges (ui_messages (fst (ChatUI_sendMessage_resume aid (Responds res) (s, b))))
        = map ChatUI_badges (ui_messages s)
          @ [dedup_first_seen (filter_Boolean (map (\<lambda>s. Option.bind s tool) steps))])
   \<and> (ok r \<and> json r = Object c \<and> reasoning_steps c = Some steps \<longrightarrow>
      map ChatPage_badges (pg_messages (fst (ChatPage_sendMessage_resume (Responds r) (p, b))))
        = map ChatPage_badges (pg_messages p)
          @ [dedup_first_seen (filter_Boolean (map (\<lambda>s. Option.bind s tool) steps))])
   \<and> filter_Boolean (map (\<lambda>s. Option.bind s tool)
        (map (\<lambda>n. Some \<lparr>tool = Some n, step_input = i, step_output = out\<rparr>) ns))
      = filter (\<lambda>n. n \<noteq> []) ns
   \<and> Array_from_Set (xs :: string list) = dedup_first_seen xs
   \<and> distinct (dedup_first_seen xs) \<and> set (dedup_first_seen xs) = set xs"
proof (intro conjI impI)
  assume h: "ok res \<and> json res = Object d \<and> reasoning_steps d = Some steps"
  then have k: "ok res" by simp
  from h have "ChatUI_tools (ChatUI_data (json res))
      = dedup_first_seen (filter_Boolean (map (\<lambda>s. Option.bind s tool) steps))"
    by (simp add: ChatUI_tools_def ChatUI_data_def Array_from_Set_dedup)
  then show "map ChatUI_badges
      (ui_messages (fst (ChatUI_sendMessage_resume aid (Responds res) (s, b))))
        = map ChatUI_badges (ui_messages s)
          @ [dedup_first_seen (filter_Boolean (map (\<lambda>s. Option.bind s tool) steps))]"
    by (simp add: ChatUI_resume_ok [OF k] ChatUI_badges_def)
next
  assume h: "ok r \<and> json r = Object c \<and> reasoning_steps c = Some steps"
  then have v: "chatRequest_result (Responds r) = Inr (Some c)"
    by (simp add: chatRequest_result_ok)
  from h show "map ChatPage_badges
      (pg_messages (fst (ChatPage_sendMessage_resume (Responds r) (p, b))))
        = map ChatPage_badges (pg_messages p)
          @ [dedup_first_seen (filter_Boolean (map (\<lambda>s. Option.bind s tool) steps))]"
    by (simp add: ChatPage_resume_succeeds [OF v] ChatPage_badges_assistant)
next
  show "filter_Boolean (map (\<lambda>s. Option.bind s tool)
        (map (\<lambda>n. Some \<lparr>tool = Some n, step_input = i, step_output = out\<rparr>) ns))
      = filter (\<lambda>n. n \<noteq> []) ns"
    by (rule filter_Boolean_names)
  show "Array_from_Set xs = dedup_first_seen xs" by (rule Array_from_Set_dedup)
  show "distinct (dedup_first_seen xs)" by (rule distinct_dedup_first_seen)
  show "set (dedup_first_seen xs) = set xs" by (rule set_dedup_first_seen)
qed

text \<open>
  The theorem at an answer whose steps name the tools \<open>a\<close>, \<open>b\<close>, \<open>a\<close>, \<open>c\<close>: both
  controllers show \<open>a\<close>, \<open>b\<close>, \<open>c\<close> under the message they append.
\<close>

theorem tools_first_seen_witness:
  "map ChatUI_badges (ui_messages (fst (ChatUI_sendMessage_resume ''a1''
      (Responds \<lparr>status = 200, statusText = ''OK'', body_text = None,
         json = Object \<lparr>answer = Some ''Reset via settings.'', user_id = None, query = None,
           reasoning_steps =
             Some (map (\<lambda>n. Some \<lparr>tool = Some n, step_input = None, step_output = None\<rparr>)
                     [''a'', ''b'', ''a'', ''c'']),
           success = None, error = None, detail = None\<rparr>\<rparr>)
      (\<lparr>ui_token = Some ''tok123'', ui_messages = [User ''u1'' ''hello''], ui_input = [],
         ui_sending = True, ui_error = None\<rparr>, \<lparr>win = None, pushed = []\<rparr>))))
     = [[], [''a'', ''b'', ''c'']]
   \<and> map ChatPage_badges (pg_messages (fst (ChatPage_sendMessage_resume
      (Responds \<lparr>status = 200, statusText = ''OK'', body_text = None,
         json = Object \<lparr>answer = Some ''Reset via settings.'', user_id = None, query = None,
           reasoning_steps =
             Some (map (\<lambda>n. Some \<lparr>tool = Some n, step_input = None, step_output = None\<rparr>)
                     [''a'', ''b'', ''a'', ''c'']),
           success = None\<rparr>\<rparr>)
      (\<lparr>pg_token = None, pg_messages = [\<lparr>role = user, content = ''hello'', tools = None\<rparr>],
         pg_input = ''hello'', pg_loading = True, pg_error = None\<rparr>,
       \<lparr>win = None, pushed = []\<rparr>))))
     = [[], [''a'', ''b'', ''c'']]"
  using tools_first_seen
    [where res = "\<lparr>status = 200, statusText = ''OK'', body_text = None,
         json = Object \<lparr>answer = Some ''Reset via settings.'', user_id = None, query = None,
           reasoning_steps =
             Some (map (\<lambda>n. Some \<lparr>tool = Some n, step_input = None, step_output = None\<rparr>)
                     [''a'', ''b'', ''a'', ''c'']),
           success = None, error = None, detail = None\<rparr>\<rparr>"
     and d = "\<lparr>answer = Some ''Reset via settings.'', user_id = None, query = None,
           reasoning_steps =
             Some (map (\<lambda>n. Some \<lparr>tool = Some n, step_input = None, step_output = None\<rparr>)
                     [''a'', ''b'', ''a'', ''c'']),
           success = None, error = None, detail = None\<rparr>"
     and r = "\<lparr>status = 200, statusText = ''OK'', body_text = None,
         json = Object \<lparr>answer = Some ''Reset via settings.'', user_id = None, query = None,
           reasoning_steps =
             Some (map (\<lambda>n. Some \<lparr>tool = Some n, step_input = None, step_output = None\<rparr>)
                     [''a'', ''b'', ''a'', ''c'']),
           success = None\<rparr>\<rparr>"
     and c = "\<lparr>answer = Some ''Reset via settings.'', user_id = None, query = None,
           reasoning_steps =
             Some (map (\<lambda>n. Some \<lparr>tool = Some n, step_input = None, step_output = None\<rparr>)
                     [''a'', ''b'', ''a'', ''c'']),
           success = None\<rparr>"
     and steps = "map (\<lambda>n. Some \<lparr>tool = Some n, step_input = None, step_output = None\<rparr>)
                     [''a'', ''b'', ''a'', ''c'']"
     and s = "\<lparr>ui_token = Some ''tok123'', ui_messages = [User ''u1'' ''hello''],
               ui_input = [], ui_sending = True, ui_error = None\<rparr>"
     and p = "\<lparr>pg_token = None,
               pg_messages = [\<lparr>role = user, content = ''hello'', tools = None\<rparr>],
               pg_input = ''hello'', pg_loading = True, pg_error = None\<rparr>"
     and b = "\<lparr>win = None, pushed = []\<rparr>" and aid = "''a1''"
     and ns = "[''a'', ''b'', ''a'', ''c'']" and xs = "[''a'', ''b'', ''a'', ''c'']"
     and i = None and out = None]
  by (simp add: ok_def ChatUI_badges_def ChatPage_badges_def filter_Boolean_def)

subsection \<open>C7: login\<close>

text \<open>
  C7. \<open>loginRequest\<close> throws on every answer whose status is not 2xx, with a message
  that holds the status code and the body text of the answer (the status text, or
  \<open>Unknown error\<close>, when there is none); it throws on a 2xx answer whose body has no
  \<open>access_token\<close>; and it returns a body exactly when the answer is 2xx and that body
  holds a non-empty \<open>access_token\<close>. The sign-in form stores a token and goes on to
  the chat only on a 2xx answer whose body holds a non-empty \<open>access_token\<close>.
\<close>

theorem login_contract:
  "(net (loginRequest_request base email password) = Responds res \<and> \<not> ok res \<longrightarrow>
      loginRequest base net email password =
        Inl (Thrown (Some (''Login failed ('' @ decimal (status res) @ ''): '' @
          or_str (or_str (or_else (body_text res) []) (statusText res)) ''Unknown error''))))
   \<and> (net (loginRequest_request base email password) = Responds res \<and> ok res
        \<and> (json res = Null \<or> (json res = Object d \<and> \<not> truthy (access_token d))) \<longrightarrow>
      loginRequest base net email password =
        Inl (Thrown (Some ''Login response missing access_token.'')))
   \<and> (loginRequest base net email password = Inr d) =
       (\<exists>r. net (loginRequest_request base email password) = Responds r \<and> ok r
            \<and> json r = Object d \<and> truthy (access_token d))
   \<and> (snd (fst (AuthForm_onSubmit anet (s, b))) \<noteq> b \<longrightarrow>
       (\<exists>r a. anet (authRequest_request (af_mode s) (af_email s) (af_password s)) = Responds r
           \<and> ok r \<and> json r = Object a \<and> truthy (access_token a)
           \<and> snd (fst (AuthForm_onSubmit anet (s, b)))
               = b\<lparr>win := setToken (or_else (access_token a) []) (win b),
                    pushed := pushed b @ [''/chat'']\<rparr>))"
proof (intro conjI impI)
  assume "net (loginRequest_request base email password) = Responds res \<and> \<not> ok res"
  then show "loginRequest base net email password =
        Inl (Thrown (Some (''Login failed ('' @ decimal (status res) @ ''): '' @
          or_str (or_str (or_else (body_text res) []) (statusText res)) ''Unknown error'')))"
    by (simp add: loginRequest_def loginRequest_result_not_ok)
next
  assume "net (loginRequest_request base email password) = Responds res \<and> ok res
        \<and> (json res = Null \<or> (json res = Object d \<and> \<not> truthy (access_token d)))"
  then show "loginRequest base net email password =
        Inl (Thrown (Some ''Login response missing access_token.''))"
    by (auto simp: loginRequest_def loginRequest_result_def)
next
  show "(loginRequest base net email password = Inr d) =
       (\<exists>r. net (loginRequest_request base email password) = Responds r \<and> ok r
            \<and> json r = Object d \<and> truthy (access_token d))"
    by (simp add: loginRequest_def loginRequest_result_Inr)
next
  assume "snd (fst (AuthForm_onSubmit anet (s, b))) \<noteq> b"
  then show "\<exists>r a. anet (authRequest_request (af_mode s) (af_email s) (af_password s)) = Responds r
           \<and> ok r \<and> json r = Object a \<and> truthy (access_token a)
           \<and> snd (fst (AuthForm_onSubmit anet (s, b)))
               = b\<lparr>win := setToken (or_else (access_token a) []) (win b),
                    pushed := pushed b @ [''/chat'']\<rparr>"
    by (rule AuthForm_onSubmit_browser)
qed

text \<open>
  The theorem at a login answered with 401 and the body text \<open>bad credentials\<close>, at one
  answered with 200 and a body without token, and at a sign-in through the form
  answered with 200 and the token \<open>tok123\<close>.
\<close>

theorem login_contract_witness:
  "loginRequest ''http://localhost:8000''
     (\<lambda>req. Responds \<lparr>status = 401, statusText = ''Unauthorized'',
                       body_text = Some ''bad credentials'', json = Invalid (Thrown None)\<rparr>)
     ''alice@example.com'' ''password123''
     = Inl (Thrown (Some ''Login failed (401): bad credentials''))
   \<and> loginRequest ''http://localhost:8000''
     (\<lambda>req. Responds \<lparr>status = 200, statusText = ''OK'', body_text = None,
                       json = Object \<lparr>access_token = None, token_type = Some ''bearer''\<rparr>\<rparr>)
     ''alice@example.com'' ''password123''
     = Inl (Thrown (Some ''Login response missing access_token.''))
   \<and> snd (fst (AuthForm_onSubmit
       (\<lambda>req. Responds \<lparr>status = 200, statusText = ''OK'', body_text = None,
          json = Object \<lparr>access_token = Some ''tok123'', token_type = Some ''bearer'',
                          auth_error = None, auth_detail = None\<rparr>\<rparr>)
       (\<lparr>af_mode = login, af_email = ''alice@example.com'', af_password = ''password123'',
          af_loading = False, af_error = None\<rparr>,
        \<lparr>win = Some \<lparr>items = Map.empty, blocked = False, full = False\<rparr>, pushed = []\<rparr>)))
     = \<lparr>win = Some \<lparr>items = [''blp_token'' \<mapsto> ''tok123''], blocked = False, full = False\<rparr>,
        pushed = [''/chat'']\<rparr>"
proof -
  have a: "loginRequest ''http://localhost:8000''
     (\<lambda>req. Responds \<lparr>status = 401, statusText = ''Unauthorized'',
                       body_text = Some ''bad credentials'', json = Invalid (Thrown None)\<rparr>)
     ''alice@example.com'' ''password123''
     = Inl (Thrown (Some ''Login failed (401): bad credentials''))"
    using login_contract
      [where net = "\<lambda>req. Responds \<lparr>status = 401, statusText = ''Unauthorized'',
                       body_text = Some ''bad credentials'', json = Invalid (Thrown None)\<rparr>"
       and res = "\<lparr>status = 401, statusText = ''Unauthorized'',
                       body_text = Some ''bad credentials'', json = Invalid (Thrown None)\<rparr>"
       and base = "''http://localhost:8000''" and email = "''alice@example.com''"
       and password = "''password123''"]
    by (simp add: ok_def decimal.simps or_str_def or_else_def)
  have b: "loginRequest ''http://localhost:8000''
     (\<lambda>req. Responds \<lparr>status = 200, statusText = ''OK'', body_text = None,
                       json = Object \<lparr>access_token = None, token_type = Some ''bearer''\<rparr>\<rparr>)
     ''alice@example.com'' ''password123''
     = Inl (Thrown (Some ''Login response missing access_token.''))"
    using login_contract
      [where net = "\<lambda>req. Responds \<lparr>status = 200, statusText = ''OK'', body_text = None,
                       json = Object \<lparr>access_token = None, token_type = Some ''bearer''\<rparr>\<rparr>"
       and res = "\<lparr>status = 200, statusText = ''OK'', body_text = None,
                       json = Object \<lparr>access_token = None, token_type = Some ''bearer''\<rparr>\<rparr>"
       and d = "\<lparr>access_token = None, token_type = Some ''bearer''\<rparr>"
       and base = "''http://localhost:8000''" and email = "''alice@example.com''"
       and password = "''password123''"]
    by (simp add: ok_def truthy_def)
  have c: "snd (fst (AuthForm_onSubmit
       (\<lambda>req. Responds \<lparr>status = 200, statusText = ''OK'', body_text = None,
          json = Object \<lparr>access_token = Some ''tok123'', token_type = Some ''bearer'',
                          auth_error = None, auth_detail = None\<rparr>\<rparr>)
       (\<lparr>af_mode = login, af_email = ''alice@example.com'', af_password = ''password123'',
          af_loading = False, af_error = None\<rparr>,
        \<lparr>win = Some \<lparr>items = Map.empty, blocked = False, full = False\<rparr>, pushed = []\<rparr>)))
     \<noteq> \<lparr>win = Some \<lparr>items = Map.empty, blocked = False, full = False\<rparr>, pushed = []\<rparr>"
    by (simp add: AuthForm_onSubmit_def authRequest_def ok_def truthy_def)
  have "snd (fst (AuthForm_onSubmit
       (\<lambda>req. Responds \<lparr>status = 200, statusText = ''OK'', body_text = None,
          json = Object \<lparr>access_token = Some ''tok123'', token_type = Some ''bearer'',
                          auth_error = None, auth_detail = None\<rparr>\<rparr>)
       (\<lparr>af_mode = login, af_email = ''alice@example.com'', af_password = ''password123'',
          af_loading = False, af_error = None\<rparr>,
        \<lparr>win = Some \<lparr>items = Map.empty, blocked = False, full = False\<rparr>, pushed = []\<rparr>)))
     = \<lparr>win = Some \<lparr>items = [''blp_token'' \<mapsto> ''tok123''], blocked = False, full = False\<rparr>,
        pushed = [''/chat'']\<rparr>"
    using c login_contract
      [where anet = "\<lambda>req. Responds \<lparr>status = 200, statusText = ''OK'', body_text = None,
          json = Object \<lparr>access_token = Some ''tok123'', token_type = Some ''bearer'',
                          auth_error = None, auth_detail = None\<rparr>\<rparr>"
       and s = "\<lparr>af_mode = login, af_email = ''alice@example.com'',
                 af_password = ''password123'', af_loading = False, af_error = None\<rparr>"
       and b = "\<lparr>win = Some \<lparr>items = Map.empty, blocked = False, full = False\<rparr>,
                 pushed = []\<rparr>"]
    by (auto simp: setToken_def setItem_def TOKEN_KEY_def or_else_def)
  with a b show ?thesis by blast
qed

subsection \<open>C8: an answer without the answer field\<close>

text \<open>
  C8. When a chat answer has a 2xx status and its body parses as JSON, to \<open>null\<close> or to
  an object without \<open>answer\<close>, the controller appends one assistant message whose
  content is the placeholder, \<open>(no answer returned)\<close> in the chat-ui component and
  \<open>(No answer provided.)\<close> in the chat page, and after the whole submit no error is
  recorded.
\<close>

theorem missing_answer_placeholder:
  "(ok res \<and> (json res = Null \<or> (json res = Object d \<and> answer d = None)) \<longrightarrow>
      ChatUI_sendMessage_resume aid (Responds res) (s, b) =
        (s\<lparr>ui_messages := ui_messages s @
             [Assistant aid ''(no answer returned)'' (Some (ChatUI_tools (ChatUI_data (json res))))],
           ui_sending := False\<rparr>, b))
   \<and> (ok res \<and> (json res = Null \<or> (json res = Object d \<and> answer d = None))
        \<and> trim (ui_input s) \<noteq> [] \<and> truthy (ui_token s) \<longrightarrow>
      ui_error (fst (ChatUI_sendMessage (\<lambda>req. Responds res) uid aid (s, b))) = None
      \<and> ui_messages (fst (ChatUI_sendMessage (\<lambda>req. Responds res) uid aid (s, b))) =
          ui_messages s @
            [User uid (trim (ui_input s)),
             Assistant aid ''(no answer returned)'' (Some (ChatUI_tools (ChatUI_data (json res))))])
   \<and> (ok r \<and> (json r = Null \<or> (json r = Object c \<and> answer c = None)) \<longrightarrow>
      (\<exists>ts. ChatPage_sendMessage_resume (Responds r) (p, b) =
        (p\<lparr>pg_messages := pg_messages p @
             [\<lparr>role = assistant, content = ''(No answer provided.)'', tools = ts\<rparr>],
           pg_input := [], pg_loading := False\<rparr>, b)))
   \<and> (ok r \<and> (json r = Null \<or> (json r = Object c \<and> answer c = None))
        \<and> trim (pg_input p) \<noteq> [] \<longrightarrow>
      pg_error (fst (ChatPage_sendMessage base (\<lambda>req. Responds r) (p, b))) = None
      \<and> (\<exists>ts. pg_messages (fst (ChatPage_sendMessage base (\<lambda>req. Responds r) (p, b))) =
          pg_messages p @
            [\<lparr>role = user, content = pg_input p, tools = None\<rparr>,
             \<lparr>role = assistant, content = ''(No answer provided.)'', tools = ts\<rparr>]))"
proof (intro conjI impI)
  assume h: "ok res \<and> (json res = Null \<or> (json res = Object d \<and> answer d = None))"
  then have a: "or_else (Option.bind (ChatUI_data (json res)) answer) ''(no answer returned)''
      = ''(no answer returned)''"
    by (auto simp: ChatUI_data_def or_else_def)
  from h show "ChatUI_sendMessage_resume aid (Responds res) (s, b) =
        (s\<lparr>ui_messages := ui_messages s @
             [Assistant aid ''(no answer returned)'' (Some (ChatUI_tools (ChatUI_data (json res))))],
           ui_sending := False\<rparr>, b)"
    by (simp only: ChatUI_resume_ok a)
next
  assume h: "ok res \<and> (json res = Null \<or> (json res = Object d \<and> answer d = None))
        \<and> trim (ui_input s) \<noteq> [] \<and> truthy (ui_token s)"
  then have a: "or_else (Option.bind (ChatUI_data (json res)) answer) ''(no answer returned)''
      = ''(no answer returned)''"
    by (auto simp: ChatUI_data_def or_else_def)
  from h obtain req where st: "ChatUI_sendMessage_start uid s =
     (s\<lparr>ui_error := None, ui_messages := ui_messages s @ [User uid (trim (ui_input s))],
        ui_input := [], ui_sending := True\<rparr>, Some req)"
    using ChatUI_start_accepts [of s uid] by blast
  from h have k: "ok res" by simp
  show "ui_error (fst (ChatUI_sendMessage (\<lambda>req. Responds res) uid aid (s, b))) = None"
    by (simp add: ChatUI_sendMessage_def st ChatUI_resume_ok [OF k])
  show "ui_messages (fst (ChatUI_sendMessage (\<lambda>req. Responds res) uid aid (s, b))) =
          ui_messages s @
            [User uid (trim (ui_input s)),
             Assistant aid ''(no answer returned)'' (Some (ChatUI_tools (ChatUI_data (json res))))]"
    by (simp add: ChatUI_sendMessage_def st ChatUI_resume_ok [OF k] a)
next
  assume h: "ok r \<and> (json r = Null \<or> (json r = Object c \<and> answer c = None))"
  then obtain v where v: "chatRequest_result (Responds r) = Inr v" "Option.bind v answer = None"
    by (auto simp: chatRequest_result_ok)
  let ?ts = "case Option.bind v reasoning_steps of
               None \<Rightarrow> None
             | Some steps \<Rightarrow> Some (filter_Boolean (map (\<lambda>st. Option.bind st tool) steps))"
  have "ChatPage_sendMessage_resume (Responds r) (p, b) =
        (p\<lparr>pg_messages := pg_messages p @
             [\<lparr>role = assistant, content = ''(No answer provided.)'', tools = ?ts\<rparr>],
           pg_input := [], pg_loading := False\<rparr>, b)"
    by (simp add: ChatPage_resume_succeeds [OF v(1)] v(2) or_else_def)
  then show "\<exists>ts. ChatPage_sendMessage_resume (Responds r) (p, b) =
        (p\<lparr>pg_messages := pg_messages p @
             [\<lparr>role = assistant, content = ''(No answer provided.)'', tools = ts\<rparr>],
           pg_input := [], pg_loading := False\<rparr>, b)"
    by (rule exI)
next
  assume h: "ok r \<and> (json r = Null \<or> (json r = Object c \<and> answer c = None))
        \<and> trim (pg_input p) \<noteq> []"
  then obtain v where v: "chatRequest_result (Responds r) = Inr v" "Option.bind v answer = None"
    by (auto simp: chatRequest_result_ok)
  from h have t: "trim (pg_input p) \<noteq> []" by simp
  note st = ChatPage_start_accepts [OF t, of base]
  show "pg_error (fst (ChatPage_sendMessage base (\<lambda>req. Responds r) (p, b))) = None"
    by (simp add: ChatPage_sendMessage_def st ChatPage_resume_succeeds [OF v(1)])
  let ?ts = "case Option.bind v reasoning_steps of
               None \<Rightarrow> None
             | Some steps \<Rightarrow> Some (filter_Boolean (map (\<lambda>st. Option.bind st tool) steps))"
  have "pg_messages (fst (ChatPage_sendMessage base (\<lambda>req. Responds r) (p, b))) =
          pg_messages p @
            [\<lparr>role = user, content = pg_input p, tools = None\<rparr>,
             \<lparr>role = assistant, content = ''(No answer provided.)'', tools = ?ts\<rparr>]"
    by (simp add: ChatPage_sendMessage_def st ChatPage_resume_succeeds [OF v(1)] v(2) or_else_def)
  then show "\<exists>ts. pg_messages (fst (ChatPage_sendMessage base (\<lambda>req. Responds r) (p, b))) =
          pg_messages p @
            [\<lparr>role = user, content = pg_input p, tools = None\<rparr>,
             \<lparr>role = assistant, content = ''(No answer provided.)'', tools = ts\<rparr>]"
    by (rule exI)
qed

text \<open>
  The theorem at a submit of \<open>hello\<close> answered with 200 and a body that holds only
  \<open>success\<close>.
\<close>

theorem missing_answer_placeholder_witness:
  "ui_error (fst (ChatUI_sendMessage
      (\<lambda>req. Responds \<lparr>status = 200, statusText = ''OK'', body_text = None,
         json = Object \<lparr>answer = None, user_id = None, query = None, reasoning_steps = None,
                         success = Some True, error = None, detail = None\<rparr>\<rparr>)
      ''u1'' ''a1''
      (\<lparr>ui_token = Some ''tok123'', ui_messages = [], ui_input = ''hello'', ui_sending = False,
         ui_error = None\<rparr>, \<lparr>win = None, pushed = []\<rparr>))) = None
   \<and> ui_messages (fst (ChatUI_sendMessage
      (\<lambda>req. Responds \<lparr>status = 200, statusText = ''OK'', body_text = None,
         json = Object \<lparr>answer = None, user_id = None, query = None, reasoning_steps = None,
                         success = Some True, error = None, detail = None\<rparr>\<rparr>)
      ''u1'' ''a1''
      (\<lparr>ui_token = Some ''tok123'', ui_messages = [], ui_input = ''hello'', ui_sending = False,
         ui_error = None\<rparr>, \<lparr>win = None, pushed = []\<rparr>)))
     = [User ''u1'' ''hello'', Assistant ''a1'' ''(no answer returned)'' (Some [])]
   \<and> pg_error (fst (ChatPage_sendMessage ''http://localhost:8000''
      (\<lambda>req. Responds \<lparr>status = 200, statusText = ''OK'', body_text = None,
         json = Object \<lparr>answer = None, user_id = None, query = None, reasoning_steps = None,
                         success = Some True\<rparr>\<rparr>)
      (\<lparr>pg_token = None, pg_messages = [], pg_input = ''hello'', pg_loading = False,
         pg_error = None\<rparr>, \<lparr>win = None, pushed = []\<rparr>))) = None"
proof -
  have t: "truthy (Some ''tok123'')" by (simp add: truthy_def)
  show ?thesis
    using t missing_answer_placeholder
      [where res = "\<lparr>status = 200, statusText = ''OK'', body_text = None,
         json = Object \<lparr>answer = None, user_id = None, query = None, reasoning_steps = None,
                         success = Some True, error = None, detail = None\<rparr>\<rparr>"
       and d = "\<lparr>answer = None, user_id = None, query = None, reasoning_steps = None,
                         success = Some True, error = None, detail = None\<rparr>"
       and r = "\<lparr>status = 200, statusText = ''OK'', body_text = None,
         json = Object \<lparr>answer = None, user_id = None, query = None, reasoning_steps = None,
                         success = Some True\<rparr>\<rparr>"
       and c = "\<lparr>answer = None, user_id = None, query = None, reasoning_steps = None,
                         success = Some True\<rparr>"
       and s = "\<lparr>ui_token = Some ''tok123'', ui_messages = [], ui_input = ''hello'',
                 ui_sending = False, ui_error = None\<rparr>"
       and p = "\<lparr>pg_token = None, pg_messages = [], pg_input = ''hello'', pg_loading = False,
                 pg_error = None\<rparr>"
       and b = "\<lparr>win = None, pushed = []\<rparr>"
       and uid = "''u1''" and aid = "''a1''" and base = "''http://localhost:8000''"]
    by (simp add: trim_def isWhiteSpace_def ok_def ChatUI_data_def ChatUI_tools_def
        filter_Boolean_def Array_from_Set_def)
qed

subsection \<open>C9: the Authorization header\<close>

text \<open>
  C9. The request that \<open>chatRequest\<close> hands to \<open>fetch\<close> has the header
  \<open>Authorization\<close>, with the value \<open>Bearer\<close> and the token, exactly when a token, a
  non-empty string, is passed to the call; without one it has no such header. The chat
  page passes the token of its hook. The chat-ui component, which builds its request
  itself, sends one only while it holds a token, and always with the header.
\<close>

theorem authorization_header:
  "map_of (headers (chatRequest_request base q tok)) ''Authorization''
     = (if truthy tok then Some (''Bearer '' @ or_else tok []) else None)
   \<and> chatRequest base net q tok = chatRequest_result (net (chatRequest_request base q tok))
   \<and> (trim (pg_input p) \<noteq> [] \<longrightarrow>
       (\<exists>req. snd (ChatPage_sendMessage_start base p) = Some req
          \<and> map_of (headers req) ''Authorization''
              = (if truthy (pg_token p) then Some (''Bearer '' @ or_else (pg_token p) [])
                 else None)))
   \<and> (snd (ChatUI_sendMessage_start uid s) = Some r \<longrightarrow>
       truthy (ui_token s)
       \<and> map_of (headers r) ''Authorization'' = Some (''Bearer '' @ or_else (ui_token s) []))"
proof (intro conjI impI)
  show "map_of (headers (chatRequest_request base q tok)) ''Authorization''
     = (if truthy tok then Some (''Bearer '' @ or_else tok []) else None)"
    by (simp add: chatRequest_request_def truthy_def or_else_def split: option.splits)
  show "chatRequest base net q tok = chatRequest_result (net (chatRequest_request base q tok))"
    by (simp add: chatRequest_def)
next
  assume h: "trim (pg_input p) \<noteq> []"
  have "map_of (headers (chatRequest_request base (pg_input p) (or_undefined (pg_token p))))
          ''Authorization''
        = (if truthy (pg_token p) then Some (''Bearer '' @ or_else (pg_token p) []) else None)"
    by (simp add: chatRequest_request_def or_undefined_def truthy_def or_else_def
        split: option.splits)
  then show "\<exists>req. snd (ChatPage_sendMessage_start base p) = Some req
          \<and> map_of (headers req) ''Authorization''
              = (if truthy (pg_token p) then Some (''Bearer '' @ or_else (pg_token p) [])
                 else None)"
    by (simp add: ChatPage_start_accepts [OF h])
next
  assume h: "snd (ChatUI_sendMessage_start uid s) = Some r"
  then show "truthy (ui_token s)"
    by (simp add: ChatUI_sendMessage_start_def split: if_splits)
  from h show "map_of (headers r) ''Authorization'' = Some (''Bearer '' @ or_else (ui_token s) [])"
    by (auto simp: ChatUI_sendMessage_start_def split: if_splits)
qed

text \<open>
  The theorem at the token \<open>tok123\<close> and at no token, and at a submit of \<open>hello\<close> in the
  chat-ui component and in the chat page, each holding \<open>tok123\<close>.
\<close>

theorem authorization_header_witness:
  "map_of (headers (chatRequest_request ''http://localhost:8000'' ''hello'' (Some ''tok123'')))
     ''Authorization'' = Some ''Bearer tok123''
   \<and> map_of (headers (chatRequest_request ''http://localhost:8000'' ''hello'' None))
     ''Authorization'' = None
   \<and> map_of (headers
       \<lparr>url = ''http://localhost:8000/chat'', http_method = ''POST'',
         headers = [(''Content-Type'', ''application/json''),
                    (''Authorization'', ''Bearer tok123'')],
         body = Query ''hello'' True\<rparr>) ''Authorization'' = Some ''Bearer tok123''
   \<and> (\<exists>req. snd (ChatPage_sendMessage_start ''http://localhost:8000''
         \<lparr>pg_token = Some ''tok123'', pg_messages = [], pg_input = ''hello'',
           pg_loading = False, pg_error = None\<rparr>) = Some req
        \<and> map_of (headers req) ''Authorization'' = Some ''Bearer tok123'')"
proof -
  have t: "truthy (Some ''tok123'')" "\<not> truthy None" by (simp_all add: truthy_def)
  have g: "\<exists>req. snd (ChatPage_sendMessage_start ''http://localhost:8000''
         \<lparr>pg_token = Some ''tok123'', pg_messages = [], pg_input = ''hello'',
           pg_loading = False, pg_error = None\<rparr>) = Some req
        \<and> map_of (headers req) ''Authorization'' = Some ''Bearer tok123''"
    using t authorization_header
      [where base = "''http://localhost:8000''" and q = "''hello''" and tok = None
       and p = "\<lparr>pg_token = Some ''tok123'', pg_messages = [], pg_input = ''hello'',
                 pg_loading = False, pg_error = None\<rparr>"
       and net = "\<lambda>req. Throws (Thrown None)" and uid = "''u1''"
       and s = "\<lparr>ui_token = None, ui_messages = [], ui_input = [], ui_sending = False,
                 ui_error = None\<rparr>"
       and r = "\<lparr>url = [], http_method = [], headers = [], body = Query [] True\<rparr>"]
    by (simp add: trim_def isWhiteSpace_def or_else_def)
  have a: "map_of (headers (chatRequest_request ''http://localhost:8000'' ''hello''
      (Some ''tok123''))) ''Authorization'' = Some ''Bearer tok123''"
    using t authorization_header
      [where base = "''http://localhost:8000''" and q = "''hello''" and tok = "Some ''tok123''"]
    by (simp add: or_else_def)
  have b: "map_of (headers (chatRequest_request ''http://localhost:8000'' ''hello'' None))
     ''Authorization'' = None"
    using t authorization_header
      [where base = "''http://localhost:8000''" and q = "''hello''" and tok = None]
    by simp
  have r: "snd (ChatUI_sendMessage_start ''u1''
        \<lparr>ui_token = Some ''tok123'', ui_messages = [], ui_input = ''hello'',
          ui_sending = False, ui_error = None\<rparr>)
      = Some \<lparr>url = ''http://localhost:8000/chat'', http_method = ''POST'',
         headers = [(''Content-Type'', ''application/json''),
                    (''Authorization'', ''Bearer tok123'')],
         body = Query ''hello'' True\<rparr>"
    by (simp add: ChatUI_sendMessage_start_def trim_def isWhiteSpace_def truthy_def
        ChatUI_API_BASE_def or_else_def)
  have c: "map_of (headers
       \<lparr>url = ''http://localhost:8000/chat'', http_method = ''POST'',
         headers = [(''Content-Type'', ''application/json''),
                    (''Authorization'', ''Bearer tok123'')],
         body = Query ''hello'' True\<rparr>) ''Authorization'' = Some (''Bearer '' @ or_else (Some ''tok123'') [])"
    using r authorization_header
      [where uid = "''u1''"
       and s = "\<lparr>ui_token = Some ''tok123'', ui_messages = [], ui_input = ''hello'',
                 ui_sending = False, ui_error = None\<rparr>"
       and r = "\<lparr>url = ''http://localhost:8000/chat'', http_method = ''POST'',
         headers = [(''Content-Type'', ''application/json''),
                    (''Authorization'', ''Bearer tok123'')],
         body = Query ''hello'' True\<rparr>"]
    by simp
  from a b c g show ?thesis by (simp add: or_else_def)
qed

subsection \<open>C10: a 2xx answer whose body is not JSON\<close>

text \<open>
  C10. In the chat-ui component, when a chat answer has a 2xx status and its body is not
  valid JSON, the value put in its place has no \<open>answer\<close>, and the controller appends
  one assistant message with the placeholder \<open>(no answer returned)\<close> and no tools; after
  the whole submit no error is recorded.
\<close>

theorem invalid_json_placeholder:
  "(ok res \<and> json res = Invalid e \<longrightarrow>
      Option.bind (ChatUI_data (json res)) answer = None
      \<and> ChatUI_sendMessage_resume aid (Responds res) (s, b) =
        (s\<lparr>ui_messages := ui_messages s @ [Assistant aid ''(no answer returned)'' (Some [])],
           ui_sending := False\<rparr>, b))
   \<and> (ok res \<and> json res = Invalid e \<and> trim (ui_input s) \<noteq> [] \<and> truthy (ui_token s) \<longrightarrow>
      ui_error (fst (ChatUI_sendMessage (\<lambda>req. Responds res) uid aid (s, b))) = None
      \<and> ui_messages (fst (ChatUI_sendMessage (\<lambda>req. Responds res) uid aid (s, b))) =
          ui_messages s @
            [User uid (trim (ui_input s)), Assistant aid ''(no answer returned)'' (Some [])])"
proof (intro conjI impI)
  assume h: "ok res \<and> json res = Invalid e"
  then show "Option.bind (ChatUI_data (json res)) answer = None"
    by (simp add: ChatUI_data_def)
  from h have k: "ok res" by simp
  from h show "ChatUI_sendMessage_resume aid (Responds res) (s, b) =
        (s\<lparr>ui_messages := ui_messages s @ [Assistant aid ''(no answer returned)'' (Some [])],
           ui_sending := False\<rparr>, b)"
    by (simp add: ChatUI_resume_ok [OF k] ChatUI_data_def ChatUI_tools_def or_else_def
        filter_Boolean_def Array_from_Set_def)
next
  assume h: "ok res \<and> json res = Invalid e \<and> trim (ui_input s) \<noteq> [] \<and> truthy (ui_token s)"
  then obtain req where st: "ChatUI_sendMessage_start uid s =
     (s\<lparr>ui_error := None, ui_messages := ui_messages s @ [User uid (trim (ui_input s))],
        ui_input := [], ui_sending := True\<rparr>, Some req)"
    using ChatUI_start_accepts [of s uid] by blast
  from h have k: "ok res" and j: "json res = Invalid e" by simp_all
  show "ui_error (fst (ChatUI_sendMessage (\<lambda>req. Responds res) uid aid (s, b))) = None"
    by (simp add: ChatUI_sendMessage_def st ChatUI_resume_ok [OF k])
  show "ui_messages (fst (ChatUI_sendMessage (\<lambda>req. Responds res) uid aid (s, b))) =
          ui_messages s @
            [User uid (trim (ui_input s)), Assistant aid ''(no answer returned)'' (Some [])]"
    by (simp add: ChatUI_sendMessage_def st ChatUI_resume_ok [OF k] j ChatUI_data_def
        ChatUI_tools_def or_else_def filter_Boolean_def Array_from_Set_def)
qed

text \<open>
  The theorem at a submit of \<open>hello\<close> answered with 200 and a body that \<open>res.json()\<close>
  rejects.
\<close>

theorem invalid_json_placeholder_witness:
  "ui_error (fst (ChatUI_sendMessage
      (\<lambda>req. Responds \<lparr>status = 200, statusText = ''OK'', body_text = Some ''<html>'',
                        json = Invalid (Thrown (Some ''Unexpected token''))\<rparr>)
      ''u1'' ''a1''
      (\<lparr>ui_token = Some ''tok123'', ui_messages = [], ui_input = ''hello'', ui_sending = False,
         ui_error = None\<rparr>, \<lparr>win = None, pushed = []\<rparr>))) = None
   \<and> ui_messages (fst (ChatUI_sendMessage
      (\<lambda>req. Responds \<lparr>status = 200, statusText = ''OK'', body_text = Some ''<html>'',
                        json = Invalid (Thrown (Some ''Unexpected token''))\<rparr>)
      ''u1'' ''a1''
      (\<lparr>ui_token = Some ''tok123'', ui_messages = [], ui_input = ''hello'', ui_sending = False,
         ui_error = None\<rparr>, \<lparr>win = None, pushed = []\<rparr>)))
     = [User ''u1'' ''hello'', Assistant ''a1'' ''(no answer returned)'' (Some [])]"
proof -
  have t: "truthy (Some ''tok123'')" by (simp add: truthy_def)
  show ?thesis
    using t invalid_json_placeholder
      [where res = "\<lparr>status = 200, statusText = ''OK'', body_text = Some ''<html>'',
                        json = Invalid (Thrown (Some ''Unexpected token''))\<rparr>"
       and e = "Thrown (Some ''Unexpected token'')"
       and s = "\<lparr>ui_token = Some ''tok123'', ui_messages = [], ui_input = ''hello'',
                 ui_sending = False, ui_error = None\<rparr>"
       and b = "\<lparr>win = None, pushed = []\<rparr>"
       and uid = "''u1''" and aid = "''a1''"]
    by (simp add: trim_def isWhiteSpace_def ok_def)
qed

end
